theory Spec2Isabelle
  imports Complex_Main
begin

section \<open>JavaScript values, strings and the remote interface\<close>

text \<open>
  A thrown or returned error object; only its \<open>message\<close> is ever read by the views.
\<close>

datatype js_error = JsError (message: string)

text \<open>\<open>err.message || dflt\<close>: an empty message is falsy and falls back to the default.\<close>

definition message_or :: "js_error \<Rightarrow> string \<Rightarrow> string" where
  "message_or e dflt = (if message e = [] then dflt else message e)"

text \<open>
  Every table call of the hosted client resolves to an object \<open>{ data, error }\<close>; both
  fields may be \<open>null\<close>. The views destructure it and test \<open>error\<close> for truthiness.
\<close>

datatype 'a response = Response (data: "'a option") (error: "js_error option")

text \<open>The count call resolves to \<open>{ count, error }\<close>.\<close>

datatype count_response = CountResponse (count: "int option") (count_error: "js_error option")

text \<open>
  \<open>String.prototype.trim\<close> on byte strings: the ASCII white space characters are removed
  at both ends.
\<close>

definition is_space :: "char \<Rightarrow> bool" where
  "is_space c = (c = CHR 0x09 \<or> c = CHR 0x0A \<or> c = CHR 0x0B \<or> c = CHR 0x0C \<or> c = CHR 0x0D \<or> c = CHR 0x20)"

definition trim :: "string \<Rightarrow> string" where
  "trim s = rev (dropWhile is_space (rev (dropWhile is_space s)))"

definition startsWith :: "string \<Rightarrow> string \<Rightarrow> bool" where
  "startsWith s p = (take (length p) s = p)"

fun includes_str :: "string \<Rightarrow> string \<Rightarrow> bool" where
  "includes_str [] p = (p = [])"
| "includes_str (c # cs) p = (startsWith (c # cs) p \<or> includes_str cs p)"

text \<open>\<open>s.split(sep)\<close> for a one-character separator: never the empty array.\<close>

fun split_on :: "char \<Rightarrow> string \<Rightarrow> string list" where
  "split_on sep [] = [[]]"
| "split_on sep (c # cs) =
     (if c = sep then [] # split_on sep cs
      else (case split_on sep cs of [] \<Rightarrow> [[c]] | p # ps \<Rightarrow> (c # p) # ps))"

text \<open>\<open>parts.indexOf(x)\<close>: the first index, or \<open>-1\<close>.\<close>

fun indexOf :: "'a list \<Rightarrow> 'a \<Rightarrow> int" where
  "indexOf [] x = - 1"
| "indexOf (y # ys) x =
     (if y = x then 0 else (let i = indexOf ys x in if i < 0 then - 1 else i + 1))"

text \<open>\<open>parts.slice(k)\<close>: a negative start counts from the end, clamped at the front.\<close>

definition slice_from :: "'a list \<Rightarrow> int \<Rightarrow> 'a list" where
  "slice_from xs k =
     (if k < 0 then drop (nat (int (length xs) + k)) xs else drop (nat k) xs)"

fun join :: "string \<Rightarrow> string list \<Rightarrow> string" where
  "join sep [] = []"
| "join sep [p] = p"
| "join sep (p # q # ps) = p @ sep @ join sep (q # ps)"

text \<open>\<open>name.split('.').pop()\<close>: the last part, which always exists.\<close>

definition fileExt :: "string \<Rightarrow> string" where
  "fileExt name = (case rev (split_on CHR ''.'' name) of [] \<Rightarrow> [] | e # _ \<Rightarrow> e)"

subsection \<open>Rows (\<open>lib/types.ts\<close>)\<close>

record file_attachment =
  a_id :: "string option"
  a_file_url :: string
  a_file_name :: string
  a_file_type :: string
  a_file_size :: "nat option"
  a_comment_id :: "string option"
  a_uploaded_at :: "string option"

record comment =
  c_id :: string
  c_blog_id :: string
  c_author_id :: string
  c_author_email :: string
  c_content :: string
  c_attachments :: "file_attachment list"
  c_created_at :: string
  c_updated_at :: string

record blog =
  b_id :: string
  b_title :: string
  b_content :: string
  b_author_id :: string
  b_author_email :: "string option"
  b_image_url :: "string option"
  b_image_path :: "string option"
  b_created_at :: string
  b_updated_at :: string

text \<open>The signed-in user of the auth slice; \<open>email\<close> is optional in the client's type.\<close>

record user =
  u_id :: string
  u_email :: "string option"

text \<open>A browser \<open>File\<close>: name, MIME type and size in bytes.\<close>

record js_file =
  f_name :: string
  f_type :: string
  f_size :: nat

record uploaded_file =
  uf_url :: string
  uf_path :: string
  uf_file :: js_file

subsection \<open>Requests\<close>

text \<open>
  A filter of the query builder: \<open>.eq(column, value)\<close> (the value may be \<open>undefined\<close>)
  and \<open>.or(expression)\<close>.
\<close>

datatype filter = Eq string "string option" | Or string

text \<open>
  A \<open>select("*")\<close> as the builder assembles it: table, filters, \<open>.order(column,
  { ascending })\<close>, \<open>.range(from, to)\<close> and \<open>.single()\<close>.
\<close>

record query =
  q_table :: string
  q_filters :: "filter list"
  q_order :: "(string \<times> bool) option"
  q_range :: "(int \<times> int) option"
  q_single :: bool

record comment_insert =
  ci_blog_id :: string
  ci_author_id :: string
  ci_author_email :: "string option"
  ci_content :: string

record attachment_insert =
  ai_comment_id :: string
  ai_file_url :: string
  ai_file_name :: string
  ai_file_type :: string
  ai_file_size :: nat

record blog_insert =
  bi_title :: string
  bi_content :: string
  bi_author_id :: string
  bi_author_email :: string
  bi_image_url :: string
  bi_image_path :: string
  bi_created_at :: string
  bi_updated_at :: string

record blog_update =
  bu_title :: string
  bu_content :: string
  bu_author_email :: string
  bu_image_url :: string
  bu_image_path :: string
  bu_updated_at :: string

text \<open>The remote calls the views issue, with the payload each one carries.\<close>

datatype call =
    Select query
  | SelectCount string
  | InsertComment comment_insert
  | InsertAttachments "attachment_insert list"
  | InsertBlog blog_insert
  | UpdateBlog blog_update "filter list"
  | DeleteFrom string "filter list"
  | StorageUpload string string js_file
  | StorageRemove string "string list"

text \<open>
  What a handler does besides updating its view state, in program order: remote calls,
  blocking prompts, navigation, timers, console output and the callbacks of a parent view.
\<close>

datatype effect =
    Call call
  | Confirm string
  | Alert string
  | Navigate string
  | NavigateAfter nat string
  | ConsoleError string js_error
  | ConsoleLog string
  | CreateObjectURL js_file
  | RevokeObjectURL string
  | OnFilesUpload "uploaded_file list"
  | OnImageUpload string string

fun calls :: "effect list \<Rightarrow> call list" where
  "calls [] = []"
| "calls (Call c # es) = c # calls es"
| "calls (_ # es) = calls es"

subsection \<open>The store's side of a windowed select\<close>

text \<open>
  Modelled from the spec: the hosted store is not part of the repository. Its read
  contract is pagination by an inclusive zero-based offset window over the rows that match
  the filters, in the requested order. \<open>rows_of q\<close> is that ordered, unwindowed row
  sequence for the query \<open>q\<close>.
\<close>

definition range_window :: "int \<times> int \<Rightarrow> 'a list \<Rightarrow> 'a list" where
  "range_window r rows = (case r of (from, to) \<Rightarrow> take (nat (to - from + 1)) (drop (nat from) rows))"

definition store_select :: "(query \<Rightarrow> 'row list) \<Rightarrow> query \<Rightarrow> 'row list response" where
  "store_select rows_of q =
     Response (Some (case q_range q of None \<Rightarrow> rows_of q | Some r \<Rightarrow> range_window r (rows_of q))) None"

section \<open>\<open>lib/storage.ts\<close>: \<open>fetchBlogs\<close>\<close>

definition fetchBlogs_query :: "int \<Rightarrow> int \<Rightarrow> query" where
  "fetchBlogs_query page limit =
     (let from = (page - 1) * limit;
          to = from + limit - 1
      in \<lparr>q_table = ''blogs'', q_filters = [], q_order = Some (''created_at'', False),
          q_range = Some (from, to), q_single = False\<rparr>)"

text \<open>
  \<open>fetchBlogs(page = 1, limit = 5)\<close>: an omitted argument takes its default. The result
  is the thrown error or the returned \<open>data\<close>.
\<close>

definition fetchBlogs ::
  "int option \<Rightarrow> int option \<Rightarrow> (query \<Rightarrow> 'row list response) \<Rightarrow> js_error + 'row list option" where
  "fetchBlogs page_arg limit_arg remote =
     (let page = (case page_arg of None \<Rightarrow> 1 | Some p \<Rightarrow> p);
          limit = (case limit_arg of None \<Rightarrow> 5 | Some l \<Rightarrow> l);
          r = remote (fetchBlogs_query page limit)
      in case error r of Some e \<Rightarrow> Inl e | None \<Rightarrow> Inr (data r))"

section \<open>\<open>pages/BlogList.tsx\<close>\<close>

definition ITEMS_PER_PAGE :: int where
  "ITEMS_PER_PAGE = 6"

record bloglist_state =
  bl_blogs :: "blog list"
  bl_loading :: bool
  bl_error :: string
  bl_search :: string
  bl_currentPage :: int
  bl_totalBlogs :: int
  bl_totalPages :: int

text \<open>
  \<open>fetchTotalCount\<close>: \<open>count || 0\<close> rows, \<open>Math.ceil(rows / ITEMS_PER_PAGE)\<close> pages. A
  failed call is logged and leaves the state as it was.
\<close>

definition fetchTotalCount :: "count_response \<Rightarrow> bloglist_state \<Rightarrow> bloglist_state \<times> effect list" where
  "fetchTotalCount r s =
     (case count_error r of
        Some e \<Rightarrow> (s, [Call (SelectCount ''blogs''), ConsoleError ''Error fetching count:'' e])
      | None \<Rightarrow>
          (let n = (case count r of None \<Rightarrow> 0 | Some c \<Rightarrow> c)
           in (s\<lparr>bl_totalBlogs := n,
                 bl_totalPages := \<lceil>real_of_int n / real_of_int ITEMS_PER_PAGE\<rceil>\<rparr>,
               [Call (SelectCount ''blogs'')])))"

definition BlogList_fetchBlogs_query :: "bloglist_state \<Rightarrow> query" where
  "BlogList_fetchBlogs_query s =
     (let from = (bl_currentPage s - 1) * ITEMS_PER_PAGE;
          to = from + ITEMS_PER_PAGE - 1;
          query = \<lparr>q_table = ''blogs'', q_filters = [], q_order = Some (''created_at'', False),
                   q_range = Some (from, to), q_single = False\<rparr>
      in if trim (bl_search s) \<noteq> []
         then query\<lparr>q_filters := q_filters query @
                [Or (''title.ilike.%'' @ bl_search s @ ''%,content.ilike.%'' @ bl_search s @ ''%'')]\<rparr>
         else query)"

text \<open>\<open>fetchBlogs()\<close> up to its \<open>await\<close>.\<close>

definition BlogList_fetchBlogs_start :: "bloglist_state \<Rightarrow> bloglist_state \<times> effect list" where
  "BlogList_fetchBlogs_start s =
     (s\<lparr>bl_loading := True\<rparr>, [Call (Select (BlogList_fetchBlogs_query s))])"

definition BlogList_fetchBlogs ::
  "(query \<Rightarrow> blog list response) \<Rightarrow> bloglist_state \<Rightarrow> bloglist_state \<times> effect list" where
  "BlogList_fetchBlogs remote s =
     (let s1 = s\<lparr>bl_loading := True\<rparr>;
          q = BlogList_fetchBlogs_query s;
          r = remote q
      in case error r of
           Some e \<Rightarrow>
             (s1\<lparr>bl_error := message_or e ''Failed to load blogs'', bl_loading := False\<rparr>,
              [Call (Select q)])
         | None \<Rightarrow>
             (s1\<lparr>bl_blogs := (case data r of None \<Rightarrow> [] | Some d \<Rightarrow> d), bl_loading := False\<rparr>,
              [Call (Select q)]))"

text \<open>
  \<open>handleDelete(id, title, imagePath?)\<close>: the result of the storage removal is not read.
  After the row delete both fetches are started and, when the last blog of a later page
  went, the page steps back.
\<close>

definition BlogList_handleDelete ::
  "bool \<Rightarrow> unit response \<Rightarrow> string \<Rightarrow> string \<Rightarrow> string option \<Rightarrow> bloglist_state \<Rightarrow>
   bloglist_state \<times> effect list" where
  "BlogList_handleDelete confirmed deleteResp blogId title imagePath s =
     (let prompt = Confirm (''Are you sure you want to delete '' @ [CHR 0x22] @ title @ [CHR 0x22] @ ''?'')
      in if \<not> confirmed then (s, [prompt])
         else
           (let removal = (case imagePath of
                             None \<Rightarrow> []
                           | Some path \<Rightarrow>
                               if path = [] then [] else [Call (StorageRemove ''blog-images'' [path])]);
                deleteRow = Call (DeleteFrom ''blogs'' [Eq ''id'' (Some blogId)])
            in case error deleteResp of
                 Some e \<Rightarrow>
                   (s, [prompt] @ removal @ [deleteRow, Alert (''Failed to delete blog: '' @ message e)])
               | None \<Rightarrow>
                   (case BlogList_fetchBlogs_start s of
                      (s1, fes) \<Rightarrow>
                        (if length (bl_blogs s) = 1 \<and> bl_currentPage s > 1
                         then s1\<lparr>bl_currentPage := bl_currentPage s - 1\<rparr> else s1,
                         [prompt] @ removal @ [deleteRow] @ fes @ [Call (SelectCount ''blogs'')]))))"

section \<open>\<open>components/Comments.tsx\<close>\<close>

record comments_state =
  cs_blogId :: string
  cs_user :: "user option"
  cs_comments :: "comment list"
  cs_loading :: bool
  cs_submitting :: bool
  cs_error :: string
  cs_content :: string
  cs_uploadedFiles :: "uploaded_file list"
  cs_editingCommentId :: "string option"
  cs_editContent :: string

text \<open>Reading a property of \<open>null\<close> throws a \<open>TypeError\<close> with this message.\<close>

definition null_property_error :: "string \<Rightarrow> js_error" where
  "null_property_error prop = JsError (''Cannot read properties of null (reading '' @ [CHR 0x27] @ prop @ [CHR 0x27] @ '')'')"

definition comments_query :: "string \<Rightarrow> query" where
  "comments_query blogId =
     \<lparr>q_table = ''comments'', q_filters = [Eq ''blog_id'' (Some blogId)],
      q_order = Some (''created_at'', False), q_range = None, q_single = False\<rparr>"

definition attachments_query :: "string \<Rightarrow> query" where
  "attachments_query commentId =
     \<lparr>q_table = ''comment_attachments'', q_filters = [Eq ''comment_id'' (Some commentId)],
      q_order = None, q_range = None, q_single = False\<rparr>"

subsection \<open>\<open>fetchComments\<close>, cut at its two \<open>await\<close>s\<close>

text \<open>
  Up to the first \<open>await\<close>: \<open>setLoading(true)\<close> and the comments query is sent.
\<close>

definition fetchComments_start :: "comments_state \<Rightarrow> comments_state \<times> effect list" where
  "fetchComments_start s =
     (s\<lparr>cs_loading := True\<rparr>, [Call (Select (comments_query (cs_blogId s)))])"

text \<open>
  When the comments response arrives. An error is thrown to the \<open>catch\<close> block, which logs
  it and shows its message, and the fetch is over (\<open>Inl\<close>). Otherwise one attachment
  query per row of \<open>commentsData || []\<close> is sent, in row order, and the fetch waits for all
  of them (\<open>Inr\<close> the rows).
\<close>

definition fetchComments_onComments ::
  "comment list response \<Rightarrow> comments_state \<Rightarrow> (comments_state + comment list) \<times> effect list" where
  "fetchComments_onComments r s =
     (case error r of
        Some e \<Rightarrow>
          (Inl (s\<lparr>cs_error := message e, cs_loading := False\<rparr>),
           [ConsoleError ''Error fetching comments:'' e])
      | None \<Rightarrow>
          (let rows = (case data r of None \<Rightarrow> [] | Some d \<Rightarrow> d)
           in (Inr rows, map (\<lambda>comment. Call (Select (attachments_query (c_id comment)))) rows)))"

text \<open>
  One row joined with the response to its attachment query: only \<open>data\<close> is read,
  \<open>attachmentsData || []\<close>.
\<close>

definition with_attachments :: "comment \<Rightarrow> file_attachment list response \<Rightarrow> comment" where
  "with_attachments comment r =
     comment\<lparr>c_attachments := (case data r of None \<Rightarrow> [] | Some attachmentsData \<Rightarrow> attachmentsData)\<rparr>"

text \<open>When all attachment responses have arrived: \<open>setComments\<close>, then \<open>setLoading(false)\<close>.\<close>

definition fetchComments_onAttachments ::
  "comment list \<Rightarrow> file_attachment list response list \<Rightarrow> comments_state \<Rightarrow> comments_state" where
  "fetchComments_onAttachments rows rs s =
     s\<lparr>cs_comments := map (\<lambda>(comment, r). with_attachments comment r) (zip rows rs),
       cs_loading := False\<rparr>"

text \<open>
  One uninterrupted run of \<open>fetchComments\<close> against a remote that answers each query.
\<close>

definition fetchComments ::
  "(query \<Rightarrow> comment list response) \<Rightarrow> (query \<Rightarrow> file_attachment list response) \<Rightarrow>
   comments_state \<Rightarrow> comments_state \<times> effect list" where
  "fetchComments remote_comments remote_attachments s =
     (case fetchComments_start s of
        (s1, es1) \<Rightarrow>
          (case fetchComments_onComments (remote_comments (comments_query (cs_blogId s))) s1 of
             (Inl s2, es2) \<Rightarrow> (s2, es1 @ es2)
           | (Inr rows, es2) \<Rightarrow>
               (fetchComments_onAttachments rows
                  (map (\<lambda>comment. remote_attachments (attachments_query (c_id comment))) rows) s1,
                es1 @ es2)))"

subsection \<open>\<open>handleSubmit\<close>\<close>

text \<open>The \<open>catch\<close> and \<open>finally\<close> blocks of \<open>handleSubmit\<close>.\<close>

definition Comments_submit_failed ::
  "js_error \<Rightarrow> comments_state \<Rightarrow> effect list \<Rightarrow> comments_state \<times> effect list" where
  "Comments_submit_failed err s es =
     (s\<lparr>cs_error := message_or err ''Failed to post comment'', cs_submitting := False\<rparr>, es)"

text \<open>
  The end of the \<open>try\<close> block: the form is reset, \<open>fetchComments()\<close> is started without
  being awaited, and \<open>finally\<close> runs.
\<close>

definition Comments_submit_done ::
  "comments_state \<Rightarrow> effect list \<Rightarrow> comments_state \<times> effect list" where
  "Comments_submit_done s es =
     (case fetchComments_start (s\<lparr>cs_content := [], cs_uploadedFiles := []\<rparr>) of
        (s1, fes) \<Rightarrow> (s1\<lparr>cs_submitting := False\<rparr>, es @ fes))"

definition attachmentsToInsert :: "comment \<Rightarrow> uploaded_file list \<Rightarrow> attachment_insert list" where
  "attachmentsToInsert commentData files =
     map (\<lambda>file. \<lparr>ai_comment_id = c_id commentData, ai_file_url = uf_url file,
                  ai_file_name = f_name (uf_file file), ai_file_type = f_type (uf_file file),
                  ai_file_size = f_size (uf_file file)\<rparr>) files"

definition Comments_handleSubmit ::
  "comment response \<Rightarrow> unit response \<Rightarrow> comments_state \<Rightarrow> comments_state \<times> effect list" where
  "Comments_handleSubmit commentResp attachmentsResp s =
     (case cs_user s of
        None \<Rightarrow> (s, [])
      | Some user \<Rightarrow>
          if trim (cs_content s) = [] then (s, [])
          else
            (let s1 = s\<lparr>cs_submitting := True, cs_error := []\<rparr>;
                 insertComment = Call (InsertComment
                   \<lparr>ci_blog_id = cs_blogId s, ci_author_id = u_id user,
                    ci_author_email = u_email user, ci_content = trim (cs_content s)\<rparr>)
             in case error commentResp of
                  Some commentError \<Rightarrow> Comments_submit_failed commentError s1 [insertComment]
                | None \<Rightarrow>
                    if cs_uploadedFiles s \<noteq> [] then
                      (case data commentResp of
                         None \<Rightarrow> Comments_submit_failed (null_property_error ''id'') s1 [insertComment]
                       | Some commentData \<Rightarrow>
                           (let insertAttachments = Call (InsertAttachments
                                  (attachmentsToInsert commentData (cs_uploadedFiles s)))
                            in case error attachmentsResp of
                                 Some attachmentsError \<Rightarrow>
                                   Comments_submit_failed attachmentsError s1 [insertComment, insertAttachments]
                               | None \<Rightarrow> Comments_submit_done s1 [insertComment, insertAttachments]))
                    else Comments_submit_done s1 [insertComment]))"

subsection \<open>\<open>handleDelete\<close>\<close>

text \<open>
  The storage paths of a comment's files: the URLs that contain \<open>comment-files\<close>, each cut
  at the path segment of that name.
\<close>

definition filePaths :: "comment \<Rightarrow> string list" where
  "filePaths comment =
     map (\<lambda>url. let parts = split_on CHR ''/'' url
                in join ''/'' (slice_from parts (indexOf parts ''comment-files'')))
       (filter (\<lambda>url. includes_str url ''comment-files'')
          (map a_file_url (c_attachments comment)))"

text \<open>
  \<open>confirmed\<close> is the answer to the blocking prompt. The result of the storage removal is
  not read.
\<close>

definition Comments_handleDelete ::
  "bool \<Rightarrow> unit response \<Rightarrow> comment \<Rightarrow> comments_state \<Rightarrow> comments_state \<times> effect list" where
  "Comments_handleDelete confirmed deleteResp comment s =
     (let prompt = Confirm ''Are you sure you want to delete this comment?''
      in if \<not> confirmed then (s, [prompt])
         else
           (let deleteRow = Call (DeleteFrom ''comments''
                  [Eq ''id'' (Some (c_id comment)), Eq ''author_id'' (map_option u_id (cs_user s))])
            in case error deleteResp of
                 Some e \<Rightarrow> (s\<lparr>cs_error := message e\<rparr>, [prompt, deleteRow])
               | None \<Rightarrow>
                   (let removal =
                          (if c_attachments comment \<noteq> [] \<and> filePaths comment \<noteq> []
                           then [Call (StorageRemove ''comment-files'' (filePaths comment))]
                           else [])
                    in case fetchComments_start s of
                         (s1, fes) \<Rightarrow> (s1, [prompt, deleteRow] @ removal @ fes))))"

section \<open>\<open>pages/EditBlog.tsx\<close>\<close>

record editblog_state =
  eb_id :: "string option"
  eb_user :: "user option"
  eb_title :: string
  eb_content :: string
  eb_imageUrl :: string
  eb_imagePath :: string
  eb_loading :: bool
  eb_saving :: bool
  eb_error :: string
  eb_success :: string

text \<open>
  \<open>fetchBlog\<close>: the post is loaded, and when its \<open>author_id\<close> is not the current user's
  \<open>id\<close> (\<open>user?.id\<close> is \<open>undefined\<close> without a user) the error is set, the redirect is
  scheduled and the form fields are not filled. \<open>finally\<close> ends the loading state on every
  path.
\<close>

definition EditBlog_fetchBlog :: "blog response \<Rightarrow> editblog_state \<Rightarrow> editblog_state \<times> effect list" where
  "EditBlog_fetchBlog r s =
     (let select = Call (Select \<lparr>q_table = ''blogs'', q_filters = [Eq ''id'' (eb_id s)],
                                q_order = None, q_range = None, q_single = True\<rparr>)
      in case error r of
           Some e \<Rightarrow> (s\<lparr>eb_error := message_or e ''Failed to load blog'', eb_loading := False\<rparr>, [select])
         | None \<Rightarrow>
             (case data r of
                None \<Rightarrow>
                  (s\<lparr>eb_error := message_or (null_property_error ''author_id'') ''Failed to load blog'',
                     eb_loading := False\<rparr>, [select])
              | Some blogData \<Rightarrow>
                  if Some (b_author_id blogData) \<noteq> map_option u_id (eb_user s)
                  then (s\<lparr>eb_error := ''You don't have permission to edit this blog'',
                          eb_loading := False\<rparr>,
                        [select, NavigateAfter 2000 ''/''])
                  else (s\<lparr>eb_title := b_title blogData,
                          eb_content := b_content blogData,
                          eb_imageUrl := (case b_image_url blogData of None \<Rightarrow> [] | Some u \<Rightarrow> u),
                          eb_imagePath := (case b_image_path blogData of None \<Rightarrow> [] | Some p \<Rightarrow> p),
                          eb_loading := False\<rparr>,
                        [select, ConsoleLog ''Existing author email:''])))"

text \<open>The \<open>onChange\<close> handlers of the two inputs of the form.\<close>

definition EditBlog_setTitle :: "string \<Rightarrow> editblog_state \<Rightarrow> editblog_state" where
  "EditBlog_setTitle v s = s\<lparr>eb_title := v\<rparr>"

definition EditBlog_setContent :: "string \<Rightarrow> editblog_state \<Rightarrow> editblog_state" where
  "EditBlog_setContent v s = s\<lparr>eb_content := v\<rparr>"

text \<open>\<open>handleSubmit\<close>; \<open>now\<close> is \<open>new Date().toISOString()\<close>.\<close>

definition EditBlog_handleSubmit ::
  "string \<Rightarrow> unit response \<Rightarrow> editblog_state \<Rightarrow> editblog_state \<times> effect list" where
  "EditBlog_handleSubmit now r s =
     (if trim (eb_title s) = [] then (s\<lparr>eb_error := ''Please enter a title''\<rparr>, [])
      else if trim (eb_content s) = [] then (s\<lparr>eb_error := ''Please enter blog content''\<rparr>, [])
      else
        (case eb_user s of
           None \<Rightarrow> (s\<lparr>eb_error := ''You must be logged in to edit a blog''\<rparr>, [])
         | Some user \<Rightarrow>
             (case u_email user of
                None \<Rightarrow> (s\<lparr>eb_error := ''User email not found. Please check your account.''\<rparr>, [])
              | Some email \<Rightarrow>
                  if email = []
                  then (s\<lparr>eb_error := ''User email not found. Please check your account.''\<rparr>, [])
                  else
                    (let s1 = s\<lparr>eb_saving := True, eb_error := [], eb_success := []\<rparr>;
                         update = Call (UpdateBlog
                           \<lparr>bu_title = trim (eb_title s), bu_content = trim (eb_content s),
                            bu_author_email = email, bu_image_url = eb_imageUrl s,
                            bu_image_path = eb_imagePath s, bu_updated_at = now\<rparr>
                           [Eq ''id'' (eb_id s)])
                     in case error r of
                          Some e \<Rightarrow>
                            (s1\<lparr>eb_error := message_or e ''Failed to update blog'', eb_saving := False\<rparr>,
                             [update])
                        | None \<Rightarrow>
                            (s1\<lparr>eb_success := ''Blog updated successfully!'', eb_saving := False\<rparr>,
                             [update, NavigateAfter 1500 ''/''])))))"

text \<open>
  \<open>handleDelete\<close>: a failed storage removal is logged and the row delete follows all the
  same.
\<close>

definition EditBlog_handleDelete ::
  "bool \<Rightarrow> unit response \<Rightarrow> unit response \<Rightarrow> editblog_state \<Rightarrow> editblog_state \<times> effect list" where
  "EditBlog_handleDelete confirmed storageResp deleteResp s =
     (let prompt = Confirm ''Are you sure you want to delete this blog? This action cannot be undone.''
      in if \<not> confirmed then (s, [prompt])
         else
           (let removal =
                  (if eb_imagePath s \<noteq> []
                   then Call (StorageRemove ''blog-images'' [eb_imagePath s]) #
                        (case error storageResp of
                           Some storageError \<Rightarrow> [ConsoleError ''Failed to delete image:'' storageError]
                         | None \<Rightarrow> [])
                   else []);
                deleteRow = Call (DeleteFrom ''blogs'' [Eq ''id'' (eb_id s)])
            in case error deleteResp of
                 Some e \<Rightarrow>
                   (s\<lparr>eb_error := ''Failed to delete blog: '' @ message e\<rparr>,
                    [prompt] @ removal @ [deleteRow])
               | None \<Rightarrow> (s, [prompt] @ removal @ [deleteRow, Navigate ''/''])))"

section \<open>\<open>pages/BlogDetail.tsx\<close>\<close>

record blogdetail_state =
  bd_id :: "string option"
  bd_blog :: "blog option"
  bd_loading :: bool
  bd_error :: string
  bd_deleting :: bool

text \<open>
  \<open>handleDelete\<close>: without a loaded blog nothing happens, not even the prompt. The stored
  image of the blog is not touched.
\<close>

definition BlogDetail_handleDelete ::
  "bool \<Rightarrow> unit response \<Rightarrow> blogdetail_state \<Rightarrow> blogdetail_state \<times> effect list" where
  "BlogDetail_handleDelete confirmed deleteResp s =
     (case bd_blog s of
        None \<Rightarrow> (s, [])
      | Some blog \<Rightarrow>
          (let prompt = Confirm (''Are you sure you want to delete '' @ [CHR 0x22] @ b_title blog
                                  @ [CHR 0x22] @ ''?'')
           in if \<not> confirmed then (s, [prompt])
              else
                (let s1 = s\<lparr>bd_deleting := True\<rparr>;
                     deleteRow = Call (DeleteFrom ''blogs'' [Eq ''id'' (bd_id s)])
                 in case error deleteResp of
                      Some e \<Rightarrow>
                        (s1\<lparr>bd_error := ''Failed to delete blog: '' @ message e, bd_deleting := False\<rparr>,
                         [prompt, deleteRow])
                    | None \<Rightarrow> (s1\<lparr>bd_deleting := False\<rparr>, [prompt, deleteRow, Navigate ''/'']))))"

section \<open>\<open>pages/CreateBlog.tsx\<close>\<close>

record createblog_state =
  cb_user :: "user option"
  cb_title :: string
  cb_content :: string
  cb_imageUrl :: string
  cb_imagePath :: string
  cb_loading :: bool
  cb_error :: string

text \<open>
  \<open>handleSubmit\<close>; \<open>created\<close> and \<open>updated\<close> are the two readings of the clock. The second
  test of \<open>!user\<close> in the source can never fire.
\<close>

definition CreateBlog_handleSubmit ::
  "string \<Rightarrow> string \<Rightarrow> blog list response \<Rightarrow> createblog_state \<Rightarrow> createblog_state \<times> effect list" where
  "CreateBlog_handleSubmit created updated r s =
     (case cb_user s of
        None \<Rightarrow> (s\<lparr>cb_error := ''You must be logged in to create a blog''\<rparr>, [])
      | Some user \<Rightarrow>
          if trim (cb_title s) = [] then (s\<lparr>cb_error := ''Please enter a title''\<rparr>, [])
          else if trim (cb_content s) = [] then (s\<lparr>cb_error := ''Please enter blog content''\<rparr>, [])
          else
            (case u_email user of
               None \<Rightarrow> (s\<lparr>cb_error := ''User email not found. Please check your account.''\<rparr>, [])
             | Some email \<Rightarrow>
                 if email = []
                 then (s\<lparr>cb_error := ''User email not found. Please check your account.''\<rparr>, [])
                 else
                   (let s1 = s\<lparr>cb_loading := True, cb_error := []\<rparr>;
                        insert = Call (InsertBlog
                          \<lparr>bi_title = trim (cb_title s), bi_content = trim (cb_content s),
                           bi_author_id = u_id user, bi_author_email = email,
                           bi_image_url = cb_imageUrl s, bi_image_path = cb_imagePath s,
                           bi_created_at = created, bi_updated_at = updated\<rparr>)
                    in case error r of
                         Some supabaseError \<Rightarrow>
                           (s1\<lparr>cb_error := message_or supabaseError ''Failed to create blog'',
                               cb_loading := False\<rparr>,
                            [insert, ConsoleError ''Error creating blog:'' supabaseError])
                       | None \<Rightarrow>
                           (s1\<lparr>cb_title := [], cb_content := [], cb_loading := False\<rparr>,
                            [insert, ConsoleLog ''Blog created:'', Navigate ''/'',
                             Alert ''Blog created successfully!'']))))"

section \<open>\<open>components/CommentFileUpload.tsx\<close> and \<open>components/ImageUpload.tsx\<close>\<close>

text \<open>
  What the browser and the storage service contribute to a drop: the
  \<open>Date.now()_random\<close> stem of the \<open>i\<close>-th file name, the object URL created for the
  \<open>i\<close>-th file, the public URL of a storage path, and the \<open>error\<close> of an upload.
\<close>

record drop_env =
  env_stamp :: "nat \<Rightarrow> string"
  env_objectURL :: "nat \<Rightarrow> string"
  env_publicUrl :: "string \<Rightarrow> string"
  env_upload :: "string \<Rightarrow> js_file \<Rightarrow> js_error option"

record fileupload_state =
  fu_uploading :: bool
  fu_error :: string
  fu_uploadedFiles :: "uploaded_file list"
  fu_previews :: "(string \<times> string) list"

definition maxSize :: nat where
  "maxSize = 10 * 1024 * 1024"

text \<open>\<open>newPreviews[name] = url\<close> on an object kept as its entries in insertion order.\<close>

fun set_preview :: "string \<Rightarrow> string \<Rightarrow> (string \<times> string) list \<Rightarrow> (string \<times> string) list" where
  "set_preview name url [] = [(name, url)]"
| "set_preview name url ((k, v) # kvs) =
     (if k = name then (k, url) # kvs else (k, v) # set_preview name url kvs)"

text \<open>
  The \<open>for\<close> loop of \<open>onDrop\<close> from the \<open>i\<close>-th file on, with \<open>uploadedResults\<close>,
  \<open>newPreviews\<close> and the effects so far. The first component of the result is the error
  thrown out of the loop, if any.
\<close>

fun upload_each ::
  "drop_env \<Rightarrow> nat \<Rightarrow> js_file list \<Rightarrow> uploaded_file list \<Rightarrow> (string \<times> string) list \<Rightarrow> effect list \<Rightarrow>
   js_error option \<times> uploaded_file list \<times> (string \<times> string) list \<times> effect list" where
  "upload_each env i [] uploadedResults newPreviews es = (None, uploadedResults, newPreviews, es)"
| "upload_each env i (file # files) uploadedResults newPreviews es =
     (if f_size file > maxSize
      then (Some (JsError ([CHR 0x22] @ f_name file @ [CHR 0x22] @ '' exceeds 10MB limit'')),
            uploadedResults, newPreviews, es)
      else
        (let image = startsWith (f_type file) ''image/'';
             newPreviews1 = (if image then set_preview (f_name file) (env_objectURL env i) newPreviews
                             else newPreviews);
             es1 = (if image then es @ [CreateObjectURL file] else es);
             filePath = ''comment-files/'' @ env_stamp env i @ ''.'' @ fileExt (f_name file);
             es2 = es1 @ [Call (StorageUpload ''comment-files'' filePath file)]
         in case env_upload env filePath file of
              Some uploadError \<Rightarrow> (Some uploadError, uploadedResults, newPreviews1, es2)
            | None \<Rightarrow>
                upload_each env (Suc i) files
                  (uploadedResults @
                     [\<lparr>uf_url = env_publicUrl env filePath, uf_path = filePath, uf_file = file\<rparr>])
                  newPreviews1 es2))"

definition CommentFileUpload_onDrop ::
  "drop_env \<Rightarrow> js_file list \<Rightarrow> fileupload_state \<Rightarrow> fileupload_state \<times> effect list" where
  "CommentFileUpload_onDrop env acceptedFiles s =
     (if acceptedFiles = [] then (s, [])
      else
        (let s1 = s\<lparr>fu_uploading := True, fu_error := []\<rparr>
         in case upload_each env 0 acceptedFiles [] (fu_previews s) [] of
              (Some err, uploadedResults, newPreviews, es) \<Rightarrow>
                (s1\<lparr>fu_error := message_or err ''Failed to upload files'', fu_uploading := False\<rparr>,
                 es @ map (\<lambda>(name, url). RevokeObjectURL url) newPreviews)
            | (None, uploadedResults, newPreviews, es) \<Rightarrow>
                (let allUploadedFiles = fu_uploadedFiles s @ uploadedResults
                 in (s1\<lparr>fu_uploadedFiles := allUploadedFiles, fu_previews := newPreviews,
                        fu_uploading := False\<rparr>,
                     es @ [OnFilesUpload allUploadedFiles]))))"

text \<open>\<open>handleFilesUpload\<close> of the comment form, the callback the drop zone is given.\<close>

definition handleFilesUpload :: "uploaded_file list \<Rightarrow> comments_state \<Rightarrow> comments_state" where
  "handleFilesUpload files s = s\<lparr>cs_uploadedFiles := files\<rparr>"

record imageupload_state =
  iu_uploading :: bool
  iu_error :: string
  iu_preview :: string

text \<open>\<open>onDrop\<close> of the cover image: only the first accepted file is looked at.\<close>

definition ImageUpload_onDrop ::
  "drop_env \<Rightarrow> string option \<Rightarrow> js_file list \<Rightarrow> imageupload_state \<Rightarrow> imageupload_state \<times> effect list" where
  "ImageUpload_onDrop env currentImage acceptedFiles s =
     (case acceptedFiles of
        [] \<Rightarrow> (s, [])
      | file # _ \<Rightarrow>
          if \<not> startsWith (f_type file) ''image/''
          then (s\<lparr>iu_error := ''Please upload an image file (JPEG, PNG, GIF, etc.)''\<rparr>, [])
          else if f_size file > 5 * 1024 * 1024
          then (s\<lparr>iu_error := ''Image size must be less than 5MB''\<rparr>, [])
          else
            (let s1 = s\<lparr>iu_uploading := True, iu_error := [], iu_preview := env_objectURL env 0\<rparr>;
                 filePath = ''blog-images/'' @ env_stamp env 0 @ ''.'' @ fileExt (f_name file);
                 upload = Call (StorageUpload ''blog-images'' filePath file)
             in case env_upload env filePath file of
                  Some uploadError \<Rightarrow>
                    (s1\<lparr>iu_error := message_or uploadError ''Failed to upload image'',
                        iu_preview := (case currentImage of None \<Rightarrow> [] | Some url \<Rightarrow> url),
                        iu_uploading := False\<rparr>,
                     [CreateObjectURL file, upload])
                | None \<Rightarrow>
                    (s1\<lparr>iu_uploading := False\<rparr>,
                     [CreateObjectURL file, upload, OnImageUpload (env_publicUrl env filePath) filePath])))"

section \<open>The comment view under change notifications\<close>

text \<open>
  Modelled from the spec: the hosted store and its change feed are not part of the
  repository. The store answers every select with the rows that match it at the moment it
  is served, and a change of a watched row is followed by a notification to the
  subscribed view.
\<close>

record store =
  st_comments :: "query \<Rightarrow> comment list"
  st_attachments :: "query \<Rightarrow> file_attachment list"

text \<open>
  A \<open>fetchComments\<close> call in flight is suspended at one of its two \<open>await\<close>s, the second
  one holding the comment rows it has received, or it is over.
\<close>

datatype fetch = AwaitComments | AwaitAttachments "comment list" | Done

record session =
  ss_view :: comments_state
  ss_store :: store
  ss_inflight :: "fetch list"

text \<open>
  The events of the single-threaded loop. \<open>Changed st\<close>: the store has become \<open>st\<close> and the
  subscription callback runs, which calls \<open>fetchComments()\<close> and nothing else. The other two
  resume the \<open>k\<close>-th call with the store's answer.
\<close>

datatype event = Changed store | CommentsArrive nat | AttachmentsArrive nat

fun step :: "event \<Rightarrow> session \<Rightarrow> session" where
  "step (Changed st) w =
     w\<lparr>ss_store := st,
       ss_view := fst (fetchComments_start (ss_view w)),
       ss_inflight := ss_inflight w @ [AwaitComments]\<rparr>"
| "step (CommentsArrive k) w =
     (if k < length (ss_inflight w) then
        (case ss_inflight w ! k of
           AwaitComments \<Rightarrow>
             (case fetchComments_onComments
                     (store_select (st_comments (ss_store w)) (comments_query (cs_blogId (ss_view w))))
                     (ss_view w) of
                (Inl v, es) \<Rightarrow> w\<lparr>ss_view := v, ss_inflight := (ss_inflight w)[k := Done]\<rparr>
              | (Inr rows, es) \<Rightarrow> w\<lparr>ss_inflight := (ss_inflight w)[k := AwaitAttachments rows]\<rparr>)
         | _ \<Rightarrow> w)
      else w)"
| "step (AttachmentsArrive k) w =
     (if k < length (ss_inflight w) then
        (case ss_inflight w ! k of
           AwaitAttachments rows \<Rightarrow>
             w\<lparr>ss_view := fetchComments_onAttachments rows
                            (map (\<lambda>comment. store_select (st_attachments (ss_store w))
                                               (attachments_query (c_id comment))) rows)
                            (ss_view w),
               ss_inflight := (ss_inflight w)[k := Done]\<rparr>
         | _ \<Rightarrow> w)
      else w)"

fun run :: "event list \<Rightarrow> session \<Rightarrow> session" where
  "run [] w = w"
| "run (e # es) w = run es (step e w)"

text \<open>What one full fetch from the store would display.\<close>

definition fresh_fetch :: "store \<Rightarrow> comments_state \<Rightarrow> comment list" where
  "fresh_fetch st v =
     cs_comments (fst (fetchComments (store_select (st_comments st)) (store_select (st_attachments st)) v))"

definition settled :: "session \<Rightarrow> bool" where
  "settled w = list_all (\<lambda>f. f = Done) (ss_inflight w)"

text \<open>
  An event that leaves the \<open>k\<close>-th fetch and the store alone: an answer to another fetch.
\<close>

definition quiet :: "nat \<Rightarrow> event \<Rightarrow> bool" where
  "quiet k e =
     (case e of Changed st \<Rightarrow> False | CommentsArrive j \<Rightarrow> j \<noteq> k | AttachmentsArrive j \<Rightarrow> j \<noteq> k)"

section \<open>Properties of effect traces\<close>

text \<open>
  The first navigation among the effects is preceded by a confirmation shown to the user.
\<close>

definition is_navigation :: "effect \<Rightarrow> bool" where
  "is_navigation e = (case e of Navigate _ \<Rightarrow> True | NavigateAfter _ _ \<Rightarrow> True | _ \<Rightarrow> False)"

definition is_confirmation :: "effect \<Rightarrow> bool" where
  "is_confirmation e = (case e of Alert _ \<Rightarrow> True | _ \<Rightarrow> False)"

definition confirmation_before_navigation :: "effect list \<Rightarrow> bool" where
  "confirmation_before_navigation es =
     (let before = takeWhile (\<lambda>e. \<not> is_navigation e) es
      in length before < length es \<and> list_ex is_confirmation before)"

text \<open>Every storage removal among the calls comes before every row delete.\<close>

fun is_row_delete :: "call \<Rightarrow> bool" where
  "is_row_delete (DeleteFrom _ _) = True"
| "is_row_delete _ = False"

fun is_storage_removal :: "call \<Rightarrow> bool" where
  "is_storage_removal (StorageRemove _ _) = True"
| "is_storage_removal _ = False"

fun storage_before_row :: "call list \<Rightarrow> bool" where
  "storage_before_row [] = True"
| "storage_before_row (c # cs) =
     ((if is_row_delete c then \<not> list_ex is_storage_removal cs else True) \<and> storage_before_row cs)"

fun is_update :: "call \<Rightarrow> bool" where
  "is_update (UpdateBlog _ _) = True"
| "is_update _ = False"

section \<open>Sample values\<close>

definition alice :: user where
  "alice = \<lparr>u_id = ''alice'', u_email = Some ''alice@example.org''\<rparr>"

definition bob :: user where
  "bob = \<lparr>u_id = ''bob'', u_email = Some ''bob@example.org''\<rparr>"

definition attachment1 :: file_attachment where
  "attachment1 =
     \<lparr>a_id = Some ''a1'',
      a_file_url = ''https://x.example.org/storage/v1/object/public/comment-files/comment-files/1_k.png'',
      a_file_name = ''cat.png'', a_file_type = ''image/png'', a_file_size = Some 2048,
      a_comment_id = Some ''c1'', a_uploaded_at = Some ''2024-01-01T10:00:01Z''\<rparr>"

definition comment1 :: comment where
  "comment1 =
     \<lparr>c_id = ''c1'', c_blog_id = ''p1'', c_author_id = ''alice'',
      c_author_email = ''alice@example.org'', c_content = ''first'', c_attachments = [],
      c_created_at = ''2024-01-01T10:00:00Z'', c_updated_at = ''2024-01-01T10:00:00Z''\<rparr>"

definition comment2 :: comment where
  "comment2 =
     \<lparr>c_id = ''c2'', c_blog_id = ''p1'', c_author_id = ''bob'',
      c_author_email = ''bob@example.org'', c_content = ''second'', c_attachments = [],
      c_created_at = ''2024-01-02T09:00:00Z'', c_updated_at = ''2024-01-02T09:00:00Z''\<rparr>"

definition post1 :: blog where
  "post1 =
     \<lparr>b_id = ''p1'', b_title = ''Hello'', b_content = ''World'', b_author_id = ''alice'',
      b_author_email = Some ''alice@example.org'', b_image_url = None, b_image_path = None,
      b_created_at = ''2024-01-01T08:00:00Z'', b_updated_at = ''2024-01-01T08:00:00Z''\<rparr>"

definition photo :: js_file where
  "photo = \<lparr>f_name = ''cat.png'', f_type = ''image/png'', f_size = 2048\<rparr>"

definition staged_photo :: uploaded_file where
  "staged_photo =
     \<lparr>uf_url = ''https://x.example.org/storage/v1/object/public/comment-files/comment-files/1_k.png'',
      uf_path = ''comment-files/1_k.png'', uf_file = photo\<rparr>"

text \<open>The comment form of post \<open>p1\<close> with Alice signed in, a text typed and one file staged.\<close>

definition comment_form :: comments_state where
  "comment_form =
     \<lparr>cs_blogId = ''p1'', cs_user = Some alice, cs_comments = [], cs_loading = False,
      cs_submitting = False, cs_error = [], cs_content = '' nice post '',
      cs_uploadedFiles = [staged_photo], cs_editingCommentId = None, cs_editContent = []\<rparr>"

text \<open>The edit page of post \<open>p1\<close> as it is mounted, with Bob signed in.\<close>

definition edit_page :: editblog_state where
  "edit_page =
     \<lparr>eb_id = Some ''p1'', eb_user = Some bob, eb_title = [], eb_content = [],
      eb_imageUrl = [], eb_imagePath = [], eb_loading = True, eb_saving = False,
      eb_error = [], eb_success = []\<rparr>"

text \<open>The detail page of a post that has a stored cover image.\<close>

definition detail_page :: blogdetail_state where
  "detail_page =
     \<lparr>bd_id = Some ''p1'',
      bd_blog = Some (post1\<lparr>b_image_url := Some ''https://x.example.org/blog-images/1_a.png'',
                           b_image_path := Some ''blog-images/1_a.png''\<rparr>),
      bd_loading = False, bd_error = [], bd_deleting = False\<rparr>"

definition create_page :: createblog_state where
  "create_page =
     \<lparr>cb_user = Some alice, cb_title = ''Hello'', cb_content = ''World'', cb_imageUrl = [],
      cb_imagePath = [], cb_loading = False, cb_error = []\<rparr>"

text \<open>A remote that holds two comments of \<open>p1\<close> and fails the lookup for the second.\<close>

definition two_comments :: "query \<Rightarrow> comment list response" where
  "two_comments q = Response (Some [comment2, comment1]) None"

definition one_lookup_fails :: "query \<Rightarrow> file_attachment list response" where
  "one_lookup_fails q =
     (if q = attachments_query ''c1'' then Response (Some [attachment1]) None
      else Response None (Some (JsError ''timeout'')))"

text \<open>
  A view that opens on an empty store; the store then gains \<open>comment1\<close> and later
  \<open>comment2\<close>, and the second fetch overtakes the first.
\<close>

definition store1 :: store where
  "store1 = \<lparr>st_comments = (\<lambda>q. [comment1]), st_attachments = (\<lambda>q. [])\<rparr>"

definition store2 :: store where
  "store2 = \<lparr>st_comments = (\<lambda>q. [comment2, comment1]), st_attachments = (\<lambda>q. [])\<rparr>"

definition opened :: session where
  "opened =
     \<lparr>ss_view = comment_form,
      ss_store = \<lparr>st_comments = (\<lambda>q. []), st_attachments = (\<lambda>q. [])\<rparr>,
      ss_inflight = []\<rparr>"

definition overtaken :: "event list" where
  "overtaken =
     [Changed store1, CommentsArrive 0, Changed store2, CommentsArrive 1,
      AttachmentsArrive 1, AttachmentsArrive 0]"

text \<open>The same two changes with both fetches still waiting for their comment rows.\<close>

definition two_pending :: session where
  "two_pending = run [Changed store1, Changed store2] opened"

text \<open>A drop zone with nothing staged, a storage service that accepts every upload.\<close>

definition nothing_staged :: fileupload_state where
  "nothing_staged = \<lparr>fu_uploading = False, fu_error = [], fu_uploadedFiles = [], fu_previews = []\<rparr>"

definition no_cover :: imageupload_state where
  "no_cover = \<lparr>iu_uploading = False, iu_error = [], iu_preview = []\<rparr>"

definition accepting :: drop_env where
  "accepting =
     \<lparr>env_stamp = (\<lambda>i. ''1700000000000_k3j9x2a1b''),
      env_objectURL = (\<lambda>i. ''blob:preview''),
      env_publicUrl = (\<lambda>path. ''https://x.example.org/storage/v1/object/public/comment-files/'' @ path),
      env_upload = (\<lambda>path f. None)\<rparr>"

definition movie :: js_file where
  "movie = \<lparr>f_name = ''movie.zip'', f_type = ''application/zip'', f_size = 10 * 1024 * 1024 + 1\<rparr>"

definition poster :: js_file where
  "poster = \<lparr>f_name = ''poster.png'', f_type = ''image/png'', f_size = 5 * 1024 * 1024 + 1\<rparr>"

section \<open>Pagination\<close>

lemma range_window_page:
  assumes "1 \<le> page" and "1 \<le> psize"
  shows "range_window ((page - 1) * psize, (page - 1) * psize + psize - 1) rows =
         take (nat psize) (drop (nat ((page - 1) * psize)) rows)"
  by (simp add: range_window_def)

text \<open>
  C1. For every page number \<open>page \<ge> 1\<close> and page size \<open>psize \<ge> 1\<close>, both list fetchers
  request the blogs ordered by \<open>created_at\<close> descending in the inclusive offset window
  from \<open>(page - 1) * psize\<close> to \<open>(page - 1) * psize + psize - 1\<close> (the list page with the
  fixed size 6), and a store that serves the window returns the rows starting at offset
  \<open>(page - 1) * psize\<close> of the ordered sequence, at most \<open>psize\<close> of them.
\<close>

theorem fetchBlogs_window:
  assumes "1 \<le> page" and "1 \<le> psize"
  shows "q_range (fetchBlogs_query page psize) = Some ((page - 1) * psize, (page - 1) * psize + psize - 1)
       \<and> q_order (fetchBlogs_query page psize) = Some (''created_at'', False)
       \<and> fetchBlogs (Some page) (Some psize) (store_select rows_of) =
           Inr (Some (take (nat psize) (drop (nat ((page - 1) * psize)) (rows_of (fetchBlogs_query page psize)))))
       \<and> length (take (nat psize) (drop (nat ((page - 1) * psize)) (rows_of (fetchBlogs_query page psize)))) \<le> nat psize
       \<and> q_range (BlogList_fetchBlogs_query (s\<lparr>bl_currentPage := page\<rparr>)) = Some ((page - 1) * 6, (page - 1) * 6 + 6 - 1)
       \<and> q_order (BlogList_fetchBlogs_query (s\<lparr>bl_currentPage := page\<rparr>)) = Some (''created_at'', False)
       \<and> snd (BlogList_fetchBlogs (store_select blogs_of) (s\<lparr>bl_currentPage := page\<rparr>)) =
           [Call (Select (BlogList_fetchBlogs_query (s\<lparr>bl_currentPage := page\<rparr>)))]
       \<and> bl_blogs (fst (BlogList_fetchBlogs (store_select blogs_of) (s\<lparr>bl_currentPage := page\<rparr>))) =
           take 6 (drop (nat ((page - 1) * 6)) (blogs_of (BlogList_fetchBlogs_query (s\<lparr>bl_currentPage := page\<rparr>))))
       \<and> length (bl_blogs (fst (BlogList_fetchBlogs (store_select blogs_of) (s\<lparr>bl_currentPage := page\<rparr>)))) \<le> 6"
proof -
  let ?q = "fetchBlogs_query page psize"
  let ?s = "s\<lparr>bl_currentPage := page\<rparr>"
  have r: "q_range ?q = Some ((page - 1) * psize, (page - 1) * psize + psize - 1)"
    by (simp add: fetchBlogs_query_def Let_def)
  have o: "q_order ?q = Some (''created_at'', False)"
    by (simp add: fetchBlogs_query_def Let_def)
  have f: "fetchBlogs (Some page) (Some psize) (store_select rows_of) =
          Inr (Some (take (nat psize) (drop (nat ((page - 1) * psize)) (rows_of ?q))))"
    using range_window_page [OF assms, of "rows_of ?q"]
    by (simp add: fetchBlogs_def store_select_def r Let_def)
  have l: "length (take (nat psize) (drop (nat ((page - 1) * psize)) (rows_of ?q))) \<le> nat psize"
    by simp
  have six: "(1::int) \<le> 6" by simp
  have qr: "q_range (BlogList_fetchBlogs_query ?s) = Some ((page - 1) * 6, (page - 1) * 6 + 6 - 1)"
    by (simp add: BlogList_fetchBlogs_query_def ITEMS_PER_PAGE_def Let_def)
  have qo: "q_order (BlogList_fetchBlogs_query ?s) = Some (''created_at'', False)"
    by (simp add: BlogList_fetchBlogs_query_def Let_def)
  have ef: "snd (BlogList_fetchBlogs (store_select blogs_of) ?s) = [Call (Select (BlogList_fetchBlogs_query ?s))]"
    by (simp add: BlogList_fetchBlogs_def store_select_def Let_def)
  have bl: "bl_blogs (fst (BlogList_fetchBlogs (store_select blogs_of) ?s)) =
             take 6 (drop (nat ((page - 1) * 6)) (blogs_of (BlogList_fetchBlogs_query ?s)))"
    using range_window_page [OF assms(1) six, of "blogs_of (BlogList_fetchBlogs_query ?s)"]
    by (simp add: BlogList_fetchBlogs_def store_select_def qr Let_def)
  have bll: "length (bl_blogs (fst (BlogList_fetchBlogs (store_select blogs_of) ?s))) \<le> 6"
    unfolding bl by simp
  show ?thesis
    using r o f l qr qo ef bl bll by blast
qed

text \<open>The window of page 2 with size 6 over twenty rows is the offsets 6 to 11.\<close>

theorem fetchBlogs_window_witness:
  "(1::int) \<le> 2 \<and> (1::int) \<le> 6
   \<and> q_range (fetchBlogs_query 2 6) = Some (6, 11)
   \<and> fetchBlogs (Some 2) (Some 6) (store_select (\<lambda>q. [1 ..< 21])) = Inr (Some [7, 8, 9, 10, 11, 12])"
proof -
  have a: "(1::int) \<le> 2" and b: "(1::int) \<le> 6" by simp_all
  have "[1 ..< 21] = [1, 2, 3, 4, 5, 6, 7, 8, 9, 10, 11, 12, 13, 14, 15, 16, 17, 18, 19, 20 :: nat]"
    by (simp add: upt_rec)
  then show ?thesis
    using fetchBlogs_window [OF a b, of "\<lambda>q. [1 ..< 21]"]
    by simp
qed

text \<open>
  C7. For every total row count \<open>N\<close> the count fetcher reports \<open>ceil(N / 6)\<close> pages: the
  least number of six-row pages that holds \<open>N\<close> rows. Twenty rows give four pages.
\<close>

theorem fetchTotalCount_pages:
  "bl_totalPages (fst (fetchTotalCount (CountResponse (Some N) None) s)) = \<lceil>real_of_int N / 6\<rceil>
   \<and> bl_totalPages (fst (fetchTotalCount (CountResponse (Some N) None) s)) = (N + 5) div 6
   \<and> N \<le> 6 * bl_totalPages (fst (fetchTotalCount (CountResponse (Some N) None) s))
   \<and> 6 * (bl_totalPages (fst (fetchTotalCount (CountResponse (Some N) None) s)) - 1) < N
   \<and> bl_totalBlogs (fst (fetchTotalCount (CountResponse (Some N) None) s)) = N
   \<and> bl_totalPages (fst (fetchTotalCount (CountResponse (Some 20) None) s)) = 4"
proof -
  have p: "bl_totalPages (fst (fetchTotalCount (CountResponse (Some M) None) s)) = \<lceil>real_of_int M / 6\<rceil>" for M
    by (simp add: fetchTotalCount_def ITEMS_PER_PAGE_def)
  have c: "\<lceil>real_of_int N / 6\<rceil> = (N + 5) div 6"
    by linarith
  have b: "bl_totalBlogs (fst (fetchTotalCount (CountResponse (Some N) None) s)) = N"
    by (simp add: fetchTotalCount_def)
  have u: "N \<le> 6 * ((N + 5) div 6)" and l: "6 * ((N + 5) div 6 - 1) < N"
    by presburger+
  have t: "\<lceil>real_of_int 20 / 6\<rceil> = 4"
    by simp
  show ?thesis
    unfolding p b unfolding c using u l t by simp
qed

section \<open>Fetching comments with their attachments\<close>

lemma map_zip_same:
  "map (\<lambda>(comment, r). with_attachments comment r) (zip xs (map f xs)) =
   map (\<lambda>c. with_attachments c (f c)) xs"
  by (induction xs) simp_all

lemma calls_map_Call: "calls (map (\<lambda>x. Call (g x)) xs) = map g xs"
  by (induction xs) simp_all

lemma calls_append: "calls (xs @ ys) = calls xs @ calls ys"
  by (induction xs rule: calls.induct) simp_all

text \<open>
  C2. When the comments query succeeds, the joiner issues, after it, one attachment
  lookup per returned comment, keyed by that comment's \<open>id\<close> and in row order, and
  displays every comment with the rows of its lookup as they came. A lookup that returns
  no rows, and a lookup that fails, leave that comment with the empty attachment list;
  the fetch as a whole does not fail: no error is shown and loading ends.
\<close>

theorem fetchComments_joins_attachments:
  assumes ok: "error (remote_comments (comments_query (cs_blogId s))) = None"
    and rows: "rows = (case data (remote_comments (comments_query (cs_blogId s))) of
                         None \<Rightarrow> [] | Some d \<Rightarrow> d)"
  shows "calls (snd (fetchComments remote_comments remote_attachments s)) =
           Select (comments_query (cs_blogId s)) # map (\<lambda>c. Select (attachments_query (c_id c))) rows
       \<and> cs_comments (fst (fetchComments remote_comments remote_attachments s)) =
           map (\<lambda>c. c\<lparr>c_attachments :=
                  (case data (remote_attachments (attachments_query (c_id c))) of
                     None \<Rightarrow> [] | Some d \<Rightarrow> d)\<rparr>) rows
       \<and> (\<forall>i < length rows.
             (data (remote_attachments (attachments_query (c_id (rows ! i)))) = Some []
              \<or> (error (remote_attachments (attachments_query (c_id (rows ! i)))) \<noteq> None
                 \<and> data (remote_attachments (attachments_query (c_id (rows ! i)))) = None))
             \<longrightarrow> c_attachments (cs_comments (fst (fetchComments remote_comments remote_attachments s)) ! i) = [])
       \<and> cs_error (fst (fetchComments remote_comments remote_attachments s)) = cs_error s
       \<and> cs_loading (fst (fetchComments remote_comments remote_attachments s)) = False"
proof -
  let ?f = "fetchComments remote_comments remote_attachments s"
  have 1: "calls (snd ?f) =
           Select (comments_query (cs_blogId s)) # map (\<lambda>c. Select (attachments_query (c_id c))) rows"
    using ok rows
    by (simp add: fetchComments_def fetchComments_start_def fetchComments_onComments_def Let_def
        calls_map_Call)
  have 2: "cs_comments (fst ?f) =
           map (\<lambda>c. c\<lparr>c_attachments :=
                  (case data (remote_attachments (attachments_query (c_id c))) of
                     None \<Rightarrow> [] | Some d \<Rightarrow> d)\<rparr>) rows"
  proof -
    have "cs_comments (fst ?f) =
            map (\<lambda>c. with_attachments c (remote_attachments (attachments_query (c_id c)))) rows"
      using ok rows
      by (simp add: fetchComments_def fetchComments_start_def fetchComments_onComments_def
          fetchComments_onAttachments_def Let_def map_zip_same)
    then show ?thesis by (simp add: with_attachments_def)
  qed
  have 3: "cs_error (fst ?f) = cs_error s \<and> cs_loading (fst ?f) = False"
    using ok
    by (simp add: fetchComments_def fetchComments_start_def fetchComments_onComments_def
        fetchComments_onAttachments_def Let_def)
  have 4: "\<forall>i < length rows.
             (data (remote_attachments (attachments_query (c_id (rows ! i)))) = Some []
              \<or> (error (remote_attachments (attachments_query (c_id (rows ! i)))) \<noteq> None
                 \<and> data (remote_attachments (attachments_query (c_id (rows ! i)))) = None))
             \<longrightarrow> c_attachments (cs_comments (fst ?f) ! i) = []"
    unfolding 2 by auto
  show ?thesis using 1 2 3 4 by blast
qed

text \<open>Two comments; the lookup for \<open>c2\<close> fails and \<open>c2\<close> is shown without attachments.\<close>

theorem fetchComments_joins_attachments_witness:
  "error (two_comments (comments_query (cs_blogId comment_form))) = None
   \<and> cs_comments (fst (fetchComments two_comments one_lookup_fails comment_form)) =
       [comment2\<lparr>c_attachments := []\<rparr>, comment1\<lparr>c_attachments := [attachment1]\<rparr>]
   \<and> calls (snd (fetchComments two_comments one_lookup_fails comment_form)) =
       [Select (comments_query ''p1''), Select (attachments_query ''c2''), Select (attachments_query ''c1'')]
   \<and> cs_error (fst (fetchComments two_comments one_lookup_fails comment_form)) = []"
proof -
  have ok: "error (two_comments (comments_query (cs_blogId comment_form))) = None"
    by (simp add: two_comments_def)
  have rows: "[comment2, comment1] =
       (case data (two_comments (comments_query (cs_blogId comment_form))) of None \<Rightarrow> [] | Some d \<Rightarrow> d)"
    by (simp add: two_comments_def)
  note joined = fetchComments_joins_attachments
      [where remote_comments = two_comments and s = comment_form
         and rows = "[comment2, comment1]" and remote_attachments = one_lookup_fails, OF ok rows]
  have b: "cs_blogId comment_form = ''p1''" and e: "cs_error comment_form = []"
    by (simp_all add: comment_form_def)
  have l1: "one_lookup_fails (attachments_query ''c1'') = Response (Some [attachment1]) None"
    and l2: "one_lookup_fails (attachments_query ''c2'') = Response None (Some (JsError ''timeout''))"
    by (simp_all add: one_lookup_fails_def attachments_query_def)
  have i1: "c_id comment1 = ''c1''" and i2: "c_id comment2 = ''c2''"
    by (simp_all add: comment1_def comment2_def)
  from joined show ?thesis
    using ok by (simp add: b e l1 l2 i1 i2)
qed

section \<open>Posting a comment\<close>

lemmas submit_defs = Comments_handleSubmit_def Comments_submit_failed_def Comments_submit_done_def
  fetchComments_start_def Let_def



text \<open>
  C9. If the comment insert fails, or the attachment insert is issued and fails, the typed
  text and the staged files are as they were. If either of them has changed, then every
  write that was issued succeeded, and both are empty.
\<close>

theorem Comments_handleSubmit_keeps_form_on_failure:
  "((error cr \<noteq> None
     \<or> ((\<exists>x. InsertAttachments x \<in> set (calls (snd (Comments_handleSubmit cr ar s)))) \<and> error ar \<noteq> None)) \<longrightarrow>
      cs_content (fst (Comments_handleSubmit cr ar s)) = cs_content s
      \<and> cs_uploadedFiles (fst (Comments_handleSubmit cr ar s)) = cs_uploadedFiles s)
   \<and> ((cs_content (fst (Comments_handleSubmit cr ar s)) \<noteq> cs_content s
       \<or> cs_uploadedFiles (fst (Comments_handleSubmit cr ar s)) \<noteq> cs_uploadedFiles s) \<longrightarrow>
      error cr = None
      \<and> ((\<exists>x. InsertAttachments x \<in> set (calls (snd (Comments_handleSubmit cr ar s)))) \<longrightarrow> error ar = None)
      \<and> cs_content (fst (Comments_handleSubmit cr ar s)) = []
      \<and> cs_uploadedFiles (fst (Comments_handleSubmit cr ar s)) = [])"
  by (auto simp: submit_defs comments_query_def split: option.splits if_splits)

text \<open>The comment insert fails: the text and the staged file stay.\<close>

theorem Comments_handleSubmit_keeps_form_on_failure_witness:
  "error (Response None (Some (JsError ''offline'')) :: comment response) \<noteq> None
   \<and> cs_content (fst (Comments_handleSubmit (Response None (Some (JsError ''offline'')))
                        (Response None None) comment_form)) = '' nice post ''
   \<and> cs_uploadedFiles (fst (Comments_handleSubmit (Response None (Some (JsError ''offline'')))
                        (Response None None) comment_form)) = [staged_photo]
   \<and> cs_error (fst (Comments_handleSubmit (Response None (Some (JsError ''offline'')))
                        (Response None None) comment_form)) = ''offline''"
  using Comments_handleSubmit_keeps_form_on_failure
    [of "Response None (Some (JsError ''offline''))" "Response None None" comment_form]
  by (simp add: submit_defs comment_form_def alice_def trim_def is_space_def message_or_def)

section \<open>Deleting\<close>

lemmas delete_defs = EditBlog_handleDelete_def BlogList_handleDelete_def Comments_handleDelete_def
  fetchComments_start_def BlogList_fetchBlogs_start_def Let_def

lemma filePaths_no_attachments: "c_attachments comment = [] \<Longrightarrow> filePaths comment = []"
  by (simp add: filePaths_def)

text \<open>
  The detail page deletes a post that has a stored cover image with the row delete alone.
\<close>

lemma BlogDetail_handleDelete_keeps_image:
  "calls (snd (BlogDetail_handleDelete True (Response None None) detail_page)) =
     [DeleteFrom ''blogs'' [Eq ''id'' (Some ''p1'')]]"
  by (simp add: BlogDetail_handleDelete_def detail_page_def Let_def)

text \<open>
  The storage path the comment delete computes from a file's public URL is not the path
  the file was uploaded under: the URL holds the bucket name and the folder name, and the
  cut is made at the first of the two.
\<close>

lemma Comments_handleDelete_removal_path:
  "a_file_url attachment1 = uf_url staged_photo
   \<and> uf_path staged_photo = ''comment-files/1_k.png''
   \<and> filePaths (comment1\<lparr>c_attachments := [attachment1]\<rparr>) = [''comment-files/comment-files/1_k.png'']"
  by (simp add: filePaths_def comment1_def attachment1_def staged_photo_def startsWith_def
      slice_from_def)

text \<open>
  C4, as stated, fails: deleting a comment that has a stored file sends the row delete
  first and the storage removal after it.
\<close>

theorem Comments_handleDelete_row_before_storage:
  "calls (snd (Comments_handleDelete True (Response None None)
        (comment1\<lparr>c_attachments := [attachment1]\<rparr>) comment_form)) =
     [DeleteFrom ''comments'' [Eq ''id'' (Some ''c1''), Eq ''author_id'' (Some ''alice'')],
      StorageRemove ''comment-files'' [''comment-files/comment-files/1_k.png''],
      Select (comments_query ''p1'')]
   \<and> \<not> storage_before_row (calls (snd (Comments_handleDelete True (Response None None)
        (comment1\<lparr>c_attachments := [attachment1]\<rparr>) comment_form)))"
  by (simp add: delete_defs filePaths_def comment1_def attachment1_def comment_form_def alice_def
      startsWith_def slice_from_def comments_query_def)

text \<open>
  C4, amended. Every delete handler starts with the blocking prompt, and a declined prompt
  is all it does; once confirmed, every handler sends its row delete. The post deletes of
  the edit page and of the list page send the removal of the stored image, when there is
  one, before the row delete, and send the row delete whatever the storage call returned;
  the edit page logs a storage failure and the list page does not read the result. The
  comment delete sends the row delete first, before any storage call, and sends nothing
  more when the row delete fails; when it succeeds the handler ends by starting the
  re-fetch. Which objects the comment delete asks the storage to remove is left open here.
\<close>

theorem delete_confirmation_and_order:
  "snd (EditBlog_handleDelete False sr dr es) =
      [Confirm ''Are you sure you want to delete this blog? This action cannot be undone.'']
 \<and> calls (snd (BlogDetail_handleDelete False dr ds)) = []
 \<and> (\<forall>blog. bd_blog ds = Some blog \<longrightarrow>
       hd (snd (BlogDetail_handleDelete cf dr ds)) =
         Confirm (''Are you sure you want to delete '' @ [CHR 0x22] @ b_title blog @ [CHR 0x22] @ ''?'')
     \<and> DeleteFrom ''blogs'' [Eq ''id'' (bd_id ds)] \<in> set (calls (snd (BlogDetail_handleDelete True dr ds))))
 \<and> snd (BlogList_handleDelete False dr blogId title imagePath bs) =
      [Confirm (''Are you sure you want to delete '' @ [CHR 0x22] @ title @ [CHR 0x22] @ ''?'')]
 \<and> snd (Comments_handleDelete False dr comment cs) =
      [Confirm ''Are you sure you want to delete this comment?'']
 \<and> hd (snd (EditBlog_handleDelete True sr dr es)) =
      Confirm ''Are you sure you want to delete this blog? This action cannot be undone.''
 \<and> hd (snd (BlogList_handleDelete True dr blogId title imagePath bs)) =
      Confirm (''Are you sure you want to delete '' @ [CHR 0x22] @ title @ [CHR 0x22] @ ''?'')
 \<and> hd (snd (Comments_handleDelete True dr comment cs)) =
      Confirm ''Are you sure you want to delete this comment?''
 \<and> calls (snd (EditBlog_handleDelete True sr dr es)) =
      (if eb_imagePath es \<noteq> [] then [StorageRemove ''blog-images'' [eb_imagePath es]] else [])
      @ [DeleteFrom ''blogs'' [Eq ''id'' (eb_id es)]]
 \<and> (eb_imagePath es \<noteq> [] \<longrightarrow> (\<forall>e. error sr = Some e \<longrightarrow>
        ConsoleError ''Failed to delete image:'' e \<in> set (snd (EditBlog_handleDelete True sr dr es))))
 \<and> calls (snd (BlogList_handleDelete True dr blogId title imagePath bs)) =
      (if imagePath \<noteq> None \<and> imagePath \<noteq> Some []
       then [StorageRemove ''blog-images'' [the imagePath]] else [])
      @ [DeleteFrom ''blogs'' [Eq ''id'' (Some blogId)]]
      @ (if error dr = None then [Select (BlogList_fetchBlogs_query bs), SelectCount ''blogs''] else [])
 \<and> (\<exists>rest. calls (snd (Comments_handleDelete True dr comment cs)) =
        DeleteFrom ''comments''
          [Eq ''id'' (Some (c_id comment)), Eq ''author_id'' (map_option u_id (cs_user cs))] # rest)
 \<and> (error dr \<noteq> None \<longrightarrow>
       calls (snd (Comments_handleDelete True dr comment cs)) =
         [DeleteFrom ''comments''
            [Eq ''id'' (Some (c_id comment)), Eq ''author_id'' (map_option u_id (cs_user cs))]])
 \<and> (error dr = None \<longrightarrow>
       last (calls (snd (Comments_handleDelete True dr comment cs))) =
         Select (comments_query (cs_blogId cs)))"
proof -
  have d0: "calls (snd (BlogDetail_handleDelete False dr ds)) = []"
    by (simp add: BlogDetail_handleDelete_def Let_def split: option.splits)
  have d1: "\<forall>blog. bd_blog ds = Some blog \<longrightarrow>
       hd (snd (BlogDetail_handleDelete cf dr ds)) =
         Confirm (''Are you sure you want to delete '' @ [CHR 0x22] @ b_title blog @ [CHR 0x22] @ ''?'')
     \<and> DeleteFrom ''blogs'' [Eq ''id'' (bd_id ds)] \<in> set (calls (snd (BlogDetail_handleDelete True dr ds)))"
    by (simp add: BlogDetail_handleDelete_def Let_def split: option.splits)
  have e0: "snd (EditBlog_handleDelete False sr dr es) =
      [Confirm ''Are you sure you want to delete this blog? This action cannot be undone.'']"
    by (simp add: EditBlog_handleDelete_def)
  have b0: "snd (BlogList_handleDelete False dr blogId title imagePath bs) =
      [Confirm (''Are you sure you want to delete '' @ [CHR 0x22] @ title @ [CHR 0x22] @ ''?'')]"
    by (simp add: BlogList_handleDelete_def)
  have c0: "snd (Comments_handleDelete False dr comment cs) =
      [Confirm ''Are you sure you want to delete this comment?'']"
    by (simp add: Comments_handleDelete_def)
  have e1: "hd (snd (EditBlog_handleDelete True sr dr es)) =
      Confirm ''Are you sure you want to delete this blog? This action cannot be undone.''"
    by (simp add: EditBlog_handleDelete_def Let_def split: option.splits)
  have b1: "hd (snd (BlogList_handleDelete True dr blogId title imagePath bs)) =
      Confirm (''Are you sure you want to delete '' @ [CHR 0x22] @ title @ [CHR 0x22] @ ''?'')"
    by (simp add: BlogList_handleDelete_def BlogList_fetchBlogs_start_def Let_def split: option.splits)
  have c1: "hd (snd (Comments_handleDelete True dr comment cs)) =
      Confirm ''Are you sure you want to delete this comment?''"
    by (simp add: Comments_handleDelete_def fetchComments_start_def Let_def split: option.splits)
  have e2: "calls (snd (EditBlog_handleDelete True sr dr es)) =
      (if eb_imagePath es \<noteq> [] then [StorageRemove ''blog-images'' [eb_imagePath es]] else [])
      @ [DeleteFrom ''blogs'' [Eq ''id'' (eb_id es)]]"
    by (simp add: EditBlog_handleDelete_def Let_def calls_append split: option.splits)
  have e3: "eb_imagePath es \<noteq> [] \<longrightarrow> (\<forall>e. error sr = Some e \<longrightarrow>
        ConsoleError ''Failed to delete image:'' e \<in> set (snd (EditBlog_handleDelete True sr dr es)))"
    by (simp add: EditBlog_handleDelete_def Let_def split: option.splits)
  have b2: "calls (snd (BlogList_handleDelete True dr blogId title imagePath bs)) =
      (if imagePath \<noteq> None \<and> imagePath \<noteq> Some []
       then [StorageRemove ''blog-images'' [the imagePath]] else [])
      @ [DeleteFrom ''blogs'' [Eq ''id'' (Some blogId)]]
      @ (if error dr = None then [Select (BlogList_fetchBlogs_query bs), SelectCount ''blogs''] else [])"
    by (simp add: BlogList_handleDelete_def BlogList_fetchBlogs_start_def Let_def calls_append
        split: option.splits)
  have c2: "calls (snd (Comments_handleDelete True dr comment cs)) =
      [DeleteFrom ''comments''
         [Eq ''id'' (Some (c_id comment)), Eq ''author_id'' (map_option u_id (cs_user cs))]]
      @ (if error dr = None
         then (if filePaths comment \<noteq> [] then [StorageRemove ''comment-files'' (filePaths comment)] else [])
              @ [Select (comments_query (cs_blogId cs))]
         else [])"
    by (simp add: Comments_handleDelete_def fetchComments_start_def Let_def calls_append
        filePaths_no_attachments split: option.splits)
  have c3: "\<exists>rest. calls (snd (Comments_handleDelete True dr comment cs)) =
        DeleteFrom ''comments''
          [Eq ''id'' (Some (c_id comment)), Eq ''author_id'' (map_option u_id (cs_user cs))] # rest"
    unfolding c2 by simp
  have c4: "error dr \<noteq> None \<longrightarrow>
       calls (snd (Comments_handleDelete True dr comment cs)) =
         [DeleteFrom ''comments''
            [Eq ''id'' (Some (c_id comment)), Eq ''author_id'' (map_option u_id (cs_user cs))]]"
    unfolding c2 by simp
  have c5: "error dr = None \<longrightarrow>
       last (calls (snd (Comments_handleDelete True dr comment cs))) =
         Select (comments_query (cs_blogId cs))"
    unfolding c2 by simp
  show ?thesis
    using d0 d1 e0 b0 c0 e1 b1 c1 e2 e3 b2 c3 c4 c5 by blast
qed

text \<open>
  The edit page deletes a post whose image cannot be removed from storage: the failure is
  logged, the row delete is sent and the page navigates home.
\<close>

theorem delete_confirmation_and_order_witness:
  "eb_imagePath (edit_page\<lparr>eb_imagePath := ''blog-images/1_a.png''\<rparr>) \<noteq> []
   \<and> error (Response None (Some (JsError ''storage down'')) :: unit response) = Some (JsError ''storage down'')
   \<and> snd (EditBlog_handleDelete True (Response None (Some (JsError ''storage down''))) (Response None None)
             (edit_page\<lparr>eb_imagePath := ''blog-images/1_a.png''\<rparr>)) =
       [Confirm ''Are you sure you want to delete this blog? This action cannot be undone.'',
        Call (StorageRemove ''blog-images'' [''blog-images/1_a.png'']),
        ConsoleError ''Failed to delete image:'' (JsError ''storage down''),
        Call (DeleteFrom ''blogs'' [Eq ''id'' (Some ''p1'')]),
        Navigate ''/'']"
  using delete_confirmation_and_order
    [where sr = "Response None (Some (JsError ''storage down''))" and dr = "Response None None"
       and es = "edit_page\<lparr>eb_imagePath := ''blog-images/1_a.png''\<rparr>"]
  by (simp add: EditBlog_handleDelete_def edit_page_def Let_def)

section \<open>Editing a post\<close>

lemmas edit_defs = EditBlog_fetchBlog_def EditBlog_handleSubmit_def EditBlog_setTitle_def
  EditBlog_setContent_def Let_def

text \<open>
  The ownership test of \<open>fetchBlog\<close>: for a post of another author it shows the permission
  error, sends no update and leaves the form fields as they were.
\<close>

lemma EditBlog_fetchBlog_rejects:
  assumes "error r = None" and "data r = Some blogData"
    and "Some (b_author_id blogData) \<noteq> map_option u_id (eb_user s)"
  shows "eb_error (fst (EditBlog_fetchBlog r s)) = ''You don't have permission to edit this blog''
       \<and> \<not> list_ex is_update (calls (snd (EditBlog_fetchBlog r s)))
       \<and> eb_title (fst (EditBlog_fetchBlog r s)) = eb_title s
       \<and> eb_content (fst (EditBlog_fetchBlog r s)) = eb_content s"
  using assms by (simp add: edit_defs)

text \<open>
  C5 does not hold of the code. Bob opens the edit page of Alice's post \<open>p1\<close>: \<open>fetchBlog\<close>
  shows the permission error and schedules the redirect two seconds ahead, and the form is
  rendered. \<open>handleSubmit\<close> does not look at the author: Bob types a title and a text and
  submits, and the update of \<open>p1\<close> is sent.
\<close>

theorem EditBlog_update_by_non_owner:
  "b_author_id post1 \<noteq> u_id bob
   \<and> eb_user edit_page = Some bob
   \<and> EditBlog_fetchBlog (Response (Some post1) None) edit_page =
       (edit_page\<lparr>eb_error := ''You don't have permission to edit this blog'', eb_loading := False\<rparr>,
        [Call (Select \<lparr>q_table = ''blogs'', q_filters = [Eq ''id'' (Some ''p1'')], q_order = None,
                       q_range = None, q_single = True\<rparr>),
         NavigateAfter 2000 ''/''])
   \<and> calls (snd (EditBlog_handleSubmit ''2024-02-02T00:00:00Z'' (Response None None)
        (EditBlog_setContent ''mine now'' (EditBlog_setTitle ''Taken over''
           (fst (EditBlog_fetchBlog (Response (Some post1) None) edit_page)))))) =
       [UpdateBlog \<lparr>bu_title = ''Taken over'', bu_content = ''mine now'',
                    bu_author_email = ''bob@example.org'', bu_image_url = [], bu_image_path = [],
                    bu_updated_at = ''2024-02-02T00:00:00Z''\<rparr> [Eq ''id'' (Some ''p1'')]]"
  by (simp add: edit_defs post1_def bob_def edit_page_def trim_def is_space_def)

section \<open>Creating\<close>

lemmas create_defs = CreateBlog_handleSubmit_def Comments_handleSubmit_def Comments_submit_failed_def
  Comments_submit_done_def fetchComments_start_def Let_def

text \<open>
  C6, as stated, fails. After a successful post insert \<open>navigate\<close> is called first and the
  confirmation is raised after it; after a successful comment insert there is neither a
  confirmation nor a navigation.
\<close>

theorem CreateBlog_navigates_before_alert:
  "snd (CreateBlog_handleSubmit ''2024-02-02T00:00:00Z'' ''2024-02-02T00:00:01Z''
          (Response (Some [post1]) None) create_page) =
     [Call (InsertBlog \<lparr>bi_title = ''Hello'', bi_content = ''World'', bi_author_id = ''alice'',
                         bi_author_email = ''alice@example.org'', bi_image_url = [],
                         bi_image_path = [], bi_created_at = ''2024-02-02T00:00:00Z'',
                         bi_updated_at = ''2024-02-02T00:00:01Z''\<rparr>),
      ConsoleLog ''Blog created:'', Navigate ''/'', Alert ''Blog created successfully!'']
   \<and> \<not> confirmation_before_navigation
       (snd (CreateBlog_handleSubmit ''2024-02-02T00:00:00Z'' ''2024-02-02T00:00:01Z''
               (Response (Some [post1]) None) create_page))
   \<and> snd (Comments_handleSubmit (Response (Some comment1) None) (Response None None) comment_form) =
       [Call (InsertComment \<lparr>ci_blog_id = ''p1'', ci_author_id = ''alice'',
                              ci_author_email = Some ''alice@example.org'', ci_content = ''nice post''\<rparr>),
        Call (InsertAttachments (attachmentsToInsert comment1 [staged_photo])),
        Call (Select (comments_query ''p1''))]
   \<and> \<not> confirmation_before_navigation
       (snd (Comments_handleSubmit (Response (Some comment1) None) (Response None None) comment_form))"
  by (simp add: create_defs create_page_def comment_form_def alice_def trim_def is_space_def
      confirmation_before_navigation_def is_navigation_def is_confirmation_def)

text \<open>
  C6, amended. Neither create handler issues anything when no user is present or the body
  text is empty after trimming. When the post insert succeeds, title and text are cleared,
  then \<open>navigate\<close> to the home page is called and after it the confirmation alert is
  raised. When every write of a comment post succeeds, the text and the staged files are
  cleared and the comment list is fetched again; this path neither navigates nor shows a
  confirmation.
\<close>

theorem create_guards_and_reset:
  "(cb_user bs = None \<or> trim (cb_content bs) = [] \<longrightarrow> snd (CreateBlog_handleSubmit t1 t2 r bs) = [])
 \<and> (cs_user s = None \<or> trim (cs_content s) = [] \<longrightarrow> snd (Comments_handleSubmit cr ar s) = [])
 \<and> (\<forall>x. InsertBlog x \<in> set (calls (snd (CreateBlog_handleSubmit t1 t2 r bs))) \<and> error r = None \<longrightarrow>
        cb_title (fst (CreateBlog_handleSubmit t1 t2 r bs)) = []
      \<and> cb_content (fst (CreateBlog_handleSubmit t1 t2 r bs)) = []
      \<and> snd (CreateBlog_handleSubmit t1 t2 r bs) =
          [Call (InsertBlog x), ConsoleLog ''Blog created:'', Navigate ''/'',
           Alert ''Blog created successfully!''])
 \<and> (\<forall>x. InsertComment x \<in> set (calls (snd (Comments_handleSubmit cr ar s))) \<and> error cr = None
        \<and> (cs_uploadedFiles s = [] \<or> (data cr \<noteq> None \<and> error ar = None)) \<longrightarrow>
        cs_content (fst (Comments_handleSubmit cr ar s)) = []
      \<and> cs_uploadedFiles (fst (Comments_handleSubmit cr ar s)) = []
      \<and> \<not> list_ex is_navigation (snd (Comments_handleSubmit cr ar s))
      \<and> \<not> list_ex is_confirmation (snd (Comments_handleSubmit cr ar s))
      \<and> last (snd (Comments_handleSubmit cr ar s)) = Call (Select (comments_query (cs_blogId s))))"
  by (auto simp: create_defs is_navigation_def is_confirmation_def split: option.splits if_splits)

text \<open>Alice creates a post: the fields are cleared, the page navigates, the alert follows.\<close>

theorem create_guards_and_reset_witness:
  "error (Response (Some [post1]) None) = None
   \<and> cb_title (fst (CreateBlog_handleSubmit ''2024-02-02T00:00:00Z'' ''2024-02-02T00:00:01Z''
                      (Response (Some [post1]) None) create_page)) = []
   \<and> cb_content (fst (CreateBlog_handleSubmit ''2024-02-02T00:00:00Z'' ''2024-02-02T00:00:01Z''
                      (Response (Some [post1]) None) create_page)) = []
   \<and> snd (CreateBlog_handleSubmit ''2024-02-02T00:00:00Z'' ''2024-02-02T00:00:01Z''
             (Response (Some [post1]) None) create_page) =
       [Call (InsertBlog \<lparr>bi_title = ''Hello'', bi_content = ''World'', bi_author_id = ''alice'',
                           bi_author_email = ''alice@example.org'', bi_image_url = [],
                           bi_image_path = [], bi_created_at = ''2024-02-02T00:00:00Z'',
                           bi_updated_at = ''2024-02-02T00:00:01Z''\<rparr>),
        ConsoleLog ''Blog created:'', Navigate ''/'', Alert ''Blog created successfully!'']"
  using create_guards_and_reset
    [of create_page "''2024-02-02T00:00:00Z''" "''2024-02-02T00:00:01Z''" "Response (Some [post1]) None"]
  by (simp add: CreateBlog_handleSubmit_def create_page_def alice_def trim_def is_space_def Let_def)

section \<open>Re-fetching on change notifications\<close>

lemma comments_served:
  "fetchComments_onComments (store_select rows_of (comments_query b)) v =
     (Inr (rows_of (comments_query b)),
      map (\<lambda>comment. Call (Select (attachments_query (c_id comment)))) (rows_of (comments_query b)))"
  by (simp add: fetchComments_onComments_def store_select_def comments_query_def Let_def)

lemma attachments_served:
  "fetchComments_onAttachments rows
     (map (\<lambda>comment. store_select attachments_of (attachments_query (c_id comment))) rows) v =
   v\<lparr>cs_comments := map (\<lambda>c. c\<lparr>c_attachments := attachments_of (attachments_query (c_id c))\<rparr>) rows,
     cs_loading := False\<rparr>"
proof -
  have "with_attachments c (store_select attachments_of (attachments_query (c_id c))) =
        c\<lparr>c_attachments := attachments_of (attachments_query (c_id c))\<rparr>" for c
    by (simp add: with_attachments_def store_select_def attachments_query_def)
  then show ?thesis
    by (simp add: fetchComments_onAttachments_def map_zip_same)
qed

lemma comments_arrive:
  assumes "k < length (ss_inflight w)" and "ss_inflight w ! k = AwaitComments"
  shows "step (CommentsArrive k) w =
         w\<lparr>ss_inflight := (ss_inflight w)
              [k := AwaitAttachments (st_comments (ss_store w) (comments_query (cs_blogId (ss_view w))))]\<rparr>"
  using assms by (simp add: comments_served)

lemma attachments_arrive:
  assumes "k < length (ss_inflight w)" and "ss_inflight w ! k = AwaitAttachments rows"
  shows "step (AttachmentsArrive k) w =
         w\<lparr>ss_view := (ss_view w)
              \<lparr>cs_comments := map (\<lambda>c. c\<lparr>c_attachments :=
                                  st_attachments (ss_store w) (attachments_query (c_id c))\<rparr>) rows,
               cs_loading := False\<rparr>,
           ss_inflight := (ss_inflight w)[k := Done]\<rparr>"
  using assms by (simp add: attachments_served)

lemma fresh_fetch_eq:
  "fresh_fetch st v =
     map (\<lambda>c. c\<lparr>c_attachments := st_attachments st (attachments_query (c_id c))\<rparr>)
       (st_comments st (comments_query (cs_blogId v)))"
  by (simp add: fresh_fetch_def fetchComments_def fetchComments_start_def comments_served
      attachments_served)

lemma run_append: "run (xs @ ys) w = run ys (run xs w)"
  by (induction xs arbitrary: w) simp_all

lemma step_quiet:
  assumes q: "quiet k e" and k: "k < length (ss_inflight w)"
  shows "ss_store (step e w) = ss_store w
       \<and> length (ss_inflight (step e w)) = length (ss_inflight w)
       \<and> ss_inflight (step e w) ! k = ss_inflight w ! k
       \<and> cs_blogId (ss_view (step e w)) = cs_blogId (ss_view w)"
proof (cases e)
  case (Changed st)
  with q show ?thesis by (simp add: quiet_def)
next
  case (CommentsArrive j)
  with q have "j \<noteq> k" by (simp add: quiet_def)
  then show ?thesis
    using k CommentsArrive by (simp add: comments_served split: fetch.splits)
next
  case (AttachmentsArrive j)
  with q have "j \<noteq> k" by (simp add: quiet_def)
  then show ?thesis
    using k AttachmentsArrive by (simp add: attachments_served split: fetch.splits)
qed

lemma run_quiet:
  "list_all (quiet k) evs \<Longrightarrow> k < length (ss_inflight w) \<Longrightarrow>
     ss_store (run evs w) = ss_store w
   \<and> length (ss_inflight (run evs w)) = length (ss_inflight w)
   \<and> ss_inflight (run evs w) ! k = ss_inflight w ! k
   \<and> cs_blogId (ss_view (run evs w)) = cs_blogId (ss_view w)"
proof (induction evs arbitrary: w)
  case Nil
  then show ?case by simp
next
  case (Cons e evs)
  from Cons.prems have q: "quiet k e" and qs: "list_all (quiet k) evs" by simp_all
  note s = step_quiet [OF q Cons.prems(2)]
  from s Cons.prems(2) have k': "k < length (ss_inflight (step e w))" by simp
  from Cons.IH [OF qs k'] s show ?case by simp
qed

lemma fetch_between_changes:
  assumes k: "k < length (ss_inflight w)" and a: "ss_inflight w ! k = AwaitComments"
    and q: "list_all (quiet k) evs"
  shows "cs_comments (ss_view (run (CommentsArrive k # evs @ [AttachmentsArrive k]) w)) =
           fresh_fetch (ss_store w) (ss_view w)"
proof -
  let ?rows = "st_comments (ss_store w) (comments_query (cs_blogId (ss_view w)))"
  let ?w1 = "w\<lparr>ss_inflight := (ss_inflight w)[k := AwaitAttachments ?rows]\<rparr>"
  let ?w2 = "run evs ?w1"
  have k1: "k < length (ss_inflight ?w1)" and a1: "ss_inflight ?w1 ! k = AwaitAttachments ?rows"
    using k by simp_all
  note r = run_quiet [OF q k1]
  have k2: "k < length (ss_inflight ?w2)" and a2: "ss_inflight ?w2 ! k = AwaitAttachments ?rows"
    using r k1 a1 by simp_all
  have st: "ss_store ?w2 = ss_store w"
    using r by simp
  have "run (CommentsArrive k # evs @ [AttachmentsArrive k]) w =
          step (AttachmentsArrive k) (run evs (step (CommentsArrive k) w))"
    by (simp only: run.simps run_append)
  also have "\<dots> = step (AttachmentsArrive k) ?w2"
    by (simp only: comments_arrive [OF k a])
  finally have "cs_comments (ss_view (run (CommentsArrive k # evs @ [AttachmentsArrive k]) w)) =
      map (\<lambda>c. c\<lparr>c_attachments := st_attachments (ss_store ?w2) (attachments_query (c_id c))\<rparr>) ?rows"
    by (simp only: attachments_arrive [OF k2 a2]) simp
  then show ?thesis
    by (simp only: st fresh_fetch_eq)
qed

text \<open>
  C8, as stated, fails: two notifications start two fetches; the first receives its
  comment rows before the second change, the second fetch completes, and the first one
  completes last. Every fetch is over, and the view shows the older list, not what a fresh
  fetch returns.
\<close>

theorem overtaken_fetch_stale:
  "settled (run overtaken opened)
   \<and> cs_comments (ss_view (run overtaken opened)) = [comment1]
   \<and> fresh_fetch (ss_store (run overtaken opened)) (ss_view (run overtaken opened)) = [comment2, comment1]
   \<and> cs_comments (ss_view (run overtaken opened)) \<noteq>
       fresh_fetch (ss_store (run overtaken opened)) (ss_view (run overtaken opened))"
  by (simp add: overtaken_def opened_def store1_def store2_def settled_def fresh_fetch_def
      fetchComments_def fetchComments_start_def fetchComments_onComments_def
      fetchComments_onAttachments_def with_attachments_def store_select_def comments_query_def
      attachments_query_def Let_def comment1_def comment2_def comment_form_def)

text \<open>
  C8, amended. Every notification starts one more fetch, whatever is in flight: fetches
  are neither serialised nor coalesced. The attachment responses of a fetch, when they
  arrive, replace the displayed list by that fetch's comment rows joined with them, so the
  fetch that completes last decides what is shown. A fetch that receives both its answers
  with no change in between, whatever answers other fetches receive meanwhile, displays
  on its completion exactly what a fresh fetch returns.
\<close>

theorem refetch_per_notification:
  "ss_inflight (step (Changed st) w) = ss_inflight w @ [AwaitComments]
 \<and> (\<forall>k rows. k < length (ss_inflight w) \<and> ss_inflight w ! k = AwaitAttachments rows \<longrightarrow>
       cs_comments (ss_view (step (AttachmentsArrive k) w)) =
         map (\<lambda>c. c\<lparr>c_attachments := st_attachments (ss_store w) (attachments_query (c_id c))\<rparr>) rows)
 \<and> (\<forall>k evs. k < length (ss_inflight w) \<and> ss_inflight w ! k = AwaitComments \<and> list_all (quiet k) evs \<longrightarrow>
       cs_comments (ss_view (run (CommentsArrive k # evs @ [AttachmentsArrive k]) w)) =
         fresh_fetch (ss_store w) (ss_view w))"
proof -
  have 1: "ss_inflight (step (Changed st) w) = ss_inflight w @ [AwaitComments]"
    by simp
  have 2: "cs_comments (ss_view (step (AttachmentsArrive k) w)) =
         map (\<lambda>c. c\<lparr>c_attachments := st_attachments (ss_store w) (attachments_query (c_id c))\<rparr>) rows"
    if "k < length (ss_inflight w)" "ss_inflight w ! k = AwaitAttachments rows" for k rows
    by (subst attachments_arrive [OF that]) simp
  have 3: "cs_comments (ss_view (run (CommentsArrive k # evs @ [AttachmentsArrive k]) w)) =
         fresh_fetch (ss_store w) (ss_view w)"
    if "k < length (ss_inflight w)" "ss_inflight w ! k = AwaitComments" "list_all (quiet k) evs" for k evs
    using that by (rule fetch_between_changes)
  show ?thesis using 1 2 3 by blast
qed

text \<open>
  Two notifications; the first fetch completes inside the second, which completes last and
  shows both comments.
\<close>

theorem refetch_per_notification_witness:
  "1 < length (ss_inflight two_pending)
   \<and> ss_inflight two_pending ! 1 = AwaitComments
   \<and> list_all (quiet 1) [CommentsArrive 0, AttachmentsArrive 0]
   \<and> cs_comments (ss_view (run [CommentsArrive 1, CommentsArrive 0, AttachmentsArrive 0,
                                 AttachmentsArrive 1] two_pending)) = [comment2, comment1]"
proof -
  have k: "1 < length (ss_inflight two_pending)" and a: "ss_inflight two_pending ! 1 = AwaitComments"
    by (simp_all add: two_pending_def opened_def)
  have q: "list_all (quiet 1) [CommentsArrive 0, AttachmentsArrive 0]"
    by (simp add: quiet_def)
  have f: "fresh_fetch (ss_store two_pending) (ss_view two_pending) = [comment2, comment1]"
    by (simp add: fresh_fetch_eq two_pending_def store2_def opened_def comment1_def comment2_def)
  have l: "CommentsArrive 1 # [CommentsArrive 0, AttachmentsArrive 0] @ [AttachmentsArrive 1] =
           [CommentsArrive 1, CommentsArrive 0, AttachmentsArrive 0, AttachmentsArrive 1]"
    by simp
  have "cs_comments (ss_view (run (CommentsArrive 1 # [CommentsArrive 0, AttachmentsArrive 0]
                                     @ [AttachmentsArrive 1]) two_pending)) =
          fresh_fetch (ss_store two_pending) (ss_view two_pending)"
    using refetch_per_notification [of store2 two_pending] k a q by blast
  then have "cs_comments (ss_view (run [CommentsArrive 1, CommentsArrive 0, AttachmentsArrive 0,
                                         AttachmentsArrive 1] two_pending)) = [comment2, comment1]"
    by (simp only: f l)
  then show ?thesis
    using k a q by blast
qed

section \<open>Upload limits\<close>

lemma upload_each_inv:
  "upload_each env i fs res pv es = (err, res', pv', es') \<Longrightarrow>
   (\<forall>u\<in>set res. f_size (uf_file u) \<le> maxSize) \<Longrightarrow>
   (\<forall>b p f. Call (StorageUpload b p f) \<in> set es \<longrightarrow> f_size f \<le> maxSize) \<Longrightarrow>
   (\<forall>u\<in>set res'. f_size (uf_file u) \<le> maxSize)
   \<and> (\<forall>b p f. Call (StorageUpload b p f) \<in> set es' \<longrightarrow> f_size f \<le> maxSize)"
proof (induction fs arbitrary: i res pv es)
  case Nil
  then show ?case by simp
next
  case (Cons f0 files)
  show ?case
  proof (cases "f_size f0 > maxSize")
    case True
    with Cons.prems show ?thesis by simp
  next
    case False
    let ?path = "''comment-files/'' @ env_stamp env i @ ''.'' @ fileExt (f_name f0)"
    show ?thesis
    proof (cases "env_upload env ?path f0")
      case None
      with False Cons.prems(1) have
        "upload_each env (Suc i) files
           (res @ [\<lparr>uf_url = env_publicUrl env ?path, uf_path = ?path, uf_file = f0\<rparr>])
           (if startsWith (f_type f0) ''image/'' then set_preview (f_name f0) (env_objectURL env i) pv else pv)
           ((if startsWith (f_type f0) ''image/'' then es @ [CreateObjectURL f0] else es)
              @ [Call (StorageUpload ''comment-files'' ?path f0)]) = (err, res', pv', es')"
        by (simp add: Let_def)
      from Cons.IH [OF this] False Cons.prems(2,3) show ?thesis
        by (auto split: if_splits)
    next
      case (Some e)
      with False Cons.prems show ?thesis
        by (auto simp: Let_def split: if_splits)
    qed
  qed
qed

lemma upload_each_oversized:
  "\<exists>f\<in>set fs. f_size f > maxSize \<Longrightarrow> fst (upload_each env i fs res pv es) \<noteq> None"
proof (induction fs arbitrary: i res pv es)
  case Nil
  then show ?case by simp
next
  case (Cons f0 files)
  show ?case
  proof (cases "f_size f0 > maxSize")
    case True
    then show ?thesis by simp
  next
    case False
    with Cons.prems have "\<exists>f\<in>set files. f_size f > maxSize" by auto
    from Cons.IH [OF this] False show ?thesis
      by (simp add: Let_def split: option.splits)
  qed
qed

lemma upload_each_no_callback:
  "OnFilesUpload x \<in> set (snd (snd (snd (upload_each env i fs res pv es)))) \<Longrightarrow> OnFilesUpload x \<in> set es"
proof (induction fs arbitrary: i res pv es)
  case Nil
  then show ?case by simp
next
  case (Cons f0 files)
  show ?case
  proof (cases "f_size f0 > maxSize")
    case True
    with Cons.prems show ?thesis by simp
  next
    case False
    show ?thesis
    proof (cases "env_upload env (''comment-files/'' @ env_stamp env i @ ''.'' @ fileExt (f_name f0)) f0")
      case None
      with False Cons.prems show ?thesis
        by (auto simp: Let_def split: if_splits dest!: Cons.IH)
    next
      case (Some e)
      with False Cons.prems show ?thesis
        by (auto simp: Let_def split: if_splits)
    qed
  qed
qed

lemma message_or_nonempty: "dflt \<noteq> [] \<Longrightarrow> message_or e dflt \<noteq> []"
  by (simp add: message_or_def)

text \<open>
  C10. Every file the comment drop zone uploads has at most \<open>10 * 1024 * 1024\<close> bytes, and
  so has every file it stages and every file the comment form stages through its callback,
  provided the files staged before had. A drop that contains a larger file stages nothing: the staged list stays,
  the form is not called and an error is shown. Every cover image the image drop zone
  uploads has at most \<open>5 * 1024 * 1024\<close> bytes and a MIME type that starts with
  \<open>image/\<close>; a first file that is larger or not an image is refused with an error and
  without any effect.
\<close>

theorem upload_size_limits:
  "(\<forall>b p f. Call (StorageUpload b p f) \<in> set (snd (CommentFileUpload_onDrop env fs s)) \<longrightarrow>
       f_size f \<le> 10 * 1024 * 1024)
 \<and> ((\<forall>u\<in>set (fu_uploadedFiles s). f_size (uf_file u) \<le> 10 * 1024 * 1024) \<longrightarrow>
       (\<forall>u\<in>set (fu_uploadedFiles (fst (CommentFileUpload_onDrop env fs s))). f_size (uf_file u) \<le> 10 * 1024 * 1024)
     \<and> (\<forall>staged. OnFilesUpload staged \<in> set (snd (CommentFileUpload_onDrop env fs s)) \<longrightarrow>
           (\<forall>u\<in>set (cs_uploadedFiles (handleFilesUpload staged form)). f_size (uf_file u) \<le> 10 * 1024 * 1024)))
 \<and> ((\<exists>f\<in>set fs. f_size f > 10 * 1024 * 1024) \<longrightarrow>
       fu_uploadedFiles (fst (CommentFileUpload_onDrop env fs s)) = fu_uploadedFiles s
     \<and> fu_error (fst (CommentFileUpload_onDrop env fs s)) \<noteq> []
     \<and> (\<forall>staged. OnFilesUpload staged \<notin> set (snd (CommentFileUpload_onDrop env fs s))))
 \<and> (\<forall>b p f. Call (StorageUpload b p f) \<in> set (snd (ImageUpload_onDrop env cur ifs cover)) \<longrightarrow>
       f_size f \<le> 5 * 1024 * 1024 \<and> startsWith (f_type f) ''image/'')
 \<and> (\<forall>file rest. ifs = file # rest \<and> (f_size file > 5 * 1024 * 1024 \<or> \<not> startsWith (f_type file) ''image/'') \<longrightarrow>
       snd (ImageUpload_onDrop env cur ifs cover) = [] \<and> iu_error (fst (ImageUpload_onDrop env cur ifs cover)) \<noteq> [])"
proof -
  have M: "maxSize = 10 * 1024 * 1024" by (simp add: maxSize_def)
  obtain err res pv es where u: "upload_each env 0 fs [] (fu_previews s) [] = (err, res, pv, es)"
    by (cases "upload_each env 0 fs [] (fu_previews s) []") auto
  from upload_each_inv [OF u] have
    inv: "(\<forall>u\<in>set res. f_size (uf_file u) \<le> maxSize)
          \<and> (\<forall>b p f. Call (StorageUpload b p f) \<in> set es \<longrightarrow> f_size f \<le> maxSize)"
    by simp
  have nof: "OnFilesUpload staged \<notin> set es" for staged
    using upload_each_no_callback [of staged env 0 fs "[]" "fu_previews s" "[]"] u by auto
  have 1: "\<forall>b p f. Call (StorageUpload b p f) \<in> set (snd (CommentFileUpload_onDrop env fs s)) \<longrightarrow>
       f_size f \<le> maxSize"
    using inv u by (cases err) (auto simp: CommentFileUpload_onDrop_def Let_def)
  have 2: "(\<forall>u\<in>set (fu_uploadedFiles (fst (CommentFileUpload_onDrop env fs s))). f_size (uf_file u) \<le> maxSize)
     \<and> (\<forall>staged. OnFilesUpload staged \<in> set (snd (CommentFileUpload_onDrop env fs s)) \<longrightarrow>
           (\<forall>u\<in>set (cs_uploadedFiles (handleFilesUpload staged form)). f_size (uf_file u) \<le> maxSize))"
    if "\<forall>u\<in>set (fu_uploadedFiles s). f_size (uf_file u) \<le> maxSize"
    using that inv u nof
    by (cases err) (auto simp: CommentFileUpload_onDrop_def handleFilesUpload_def Let_def)
  have 3: "fu_uploadedFiles (fst (CommentFileUpload_onDrop env fs s)) = fu_uploadedFiles s
     \<and> fu_error (fst (CommentFileUpload_onDrop env fs s)) \<noteq> []
     \<and> (\<forall>staged. OnFilesUpload staged \<notin> set (snd (CommentFileUpload_onDrop env fs s)))"
    if "\<exists>f\<in>set fs. f_size f > maxSize"
  proof -
    from upload_each_oversized [OF that, of env 0 "[]" "fu_previews s" "[]"] u
    obtain e where e: "err = Some e" by auto
    have ne: "fs \<noteq> []" using that by auto
    show ?thesis
      using u e ne nof by (auto simp: CommentFileUpload_onDrop_def Let_def message_or_nonempty)
  qed
  have 4: "\<forall>b p f. Call (StorageUpload b p f) \<in> set (snd (ImageUpload_onDrop env cur ifs cover)) \<longrightarrow>
       f_size f \<le> 5 * 1024 * 1024 \<and> startsWith (f_type f) ''image/''"
    by (auto simp: ImageUpload_onDrop_def Let_def split: list.splits option.splits if_splits)
  have 5: "\<forall>file rest. ifs = file # rest \<and> (f_size file > 5 * 1024 * 1024 \<or> \<not> startsWith (f_type file) ''image/'') \<longrightarrow>
       snd (ImageUpload_onDrop env cur ifs cover) = [] \<and> iu_error (fst (ImageUpload_onDrop env cur ifs cover)) \<noteq> []"
    by (auto simp: ImageUpload_onDrop_def)
  show ?thesis
    using 1 2 3 4 5 unfolding M by blast
qed


text \<open>
  A photo and an oversized archive are dropped together: the photo is uploaded, the
  archive is not, nothing is staged. An oversized poster is refused as a cover.
\<close>

theorem upload_size_limits_witness:
  "f_size movie > 10 * 1024 * 1024
   \<and> fu_uploadedFiles (fst (CommentFileUpload_onDrop accepting [photo, movie] nothing_staged)) = []
   \<and> fu_error (fst (CommentFileUpload_onDrop accepting [photo, movie] nothing_staged)) =
       [CHR 0x22] @ ''movie.zip'' @ [CHR 0x22] @ '' exceeds 10MB limit''
   \<and> snd (CommentFileUpload_onDrop accepting [photo, movie] nothing_staged) =
       [CreateObjectURL photo,
        Call (StorageUpload ''comment-files'' ''comment-files/1700000000000_k3j9x2a1b.png'' photo),
        RevokeObjectURL ''blob:preview'']
   \<and> f_size poster > 5 * 1024 * 1024
   \<and> snd (ImageUpload_onDrop accepting None [poster] no_cover) = []
   \<and> iu_error (fst (ImageUpload_onDrop accepting None [poster] no_cover)) = ''Image size must be less than 5MB''"
  using upload_size_limits
    [where env = accepting and fs = "[photo, movie]" and s = nothing_staged and form = comment_form
       and cur = None and ifs = "[poster]" and cover = no_cover]
  by (simp add: CommentFileUpload_onDrop_def ImageUpload_onDrop_def accepting_def photo_def movie_def
      poster_def nothing_staged_def no_cover_def maxSize_def startsWith_def fileExt_def
      message_or_def Let_def)

end
